theory Spec2Isabelle
  imports Complex_Main "HOL-Library.Word"
begin

unbundle bit_operations_syntax

section \<open>AMD display manager colour management (amdgpu\_dm\_color.c)\<close>

text \<open>
  A shallow embedding of \<^verbatim>\<open>drivers/gpu/drm/amd/display/amdgpu_dm/amdgpu_dm_color.c\<close>.
  Every C function of the file but \<^verbatim>\<open>amdgpu_dm_init_color_mod\<close> (a single call into the
  colour module) is a HOL function of the same name; the leading underscores of the
  static helpers are dropped. A few blocks of the longer functions are definitions of
  their own, each named where it is introduced. Objects reached through pointers are
  passed and returned as values, a pointer that may be NULL is an \<open>option\<close>, and an
  \<open>int\<close> return code is a value of \<open>retval\<close>. A function whose C code can divide by
  zero, read outside a LUT or dereference NULL returns \<open>None\<close> there: \<open>None\<close> stands
  for undefined behaviour, never for an error code. The transfer functions that a
  stream and a plane point to (\<^verbatim>\<open>out_transfer_func\<close>, \<^verbatim>\<open>in_transfer_func\<close>) are
  dereferenced without a test in the C code; the model holds the objects.
\<close>

subsection \<open>Data model\<close>

type_synonym u16 = "16 word"
type_synonym u32 = "32 word"
type_synonym u64 = "64 word"

text \<open>\<^verbatim>\<open>struct fixed31_32 { long long value; }\<close>\<close>

type_synonym fixed31_32 = "64 word"

text \<open>\<^verbatim>\<open>struct drm_color_lut { __u16 red, green, blue, reserved; }\<close>\<close>

record drm_color_lut =
  red :: u16
  green :: u16
  blue :: u16
  reserved :: u16

text \<open>
  A LUT property blob is the list of its entries; \<^verbatim>\<open>drm_color_lut_size(blob)\<close> is the
  length of the list. A CTM blob holds \<^verbatim>\<open>struct drm_color_ctm { __u64 matrix[9]; }\<close>.
\<close>

type_synonym lut_blob = "drm_color_lut list"
type_synonym drm_color_ctm = "u64 list"

text \<open>The return codes of the file: \<open>OK\<close> is 0, the others are the non-zero codes.\<close>

datatype retval = OK | EINVAL | ENOMEM | DC_ERROR_UNEXPECTED

datatype drm_transfer_function =
    DRM_TRANSFER_FUNCTION_DEFAULT
  | DRM_TRANSFER_FUNCTION_SRGB
  | DRM_TRANSFER_FUNCTION_BT709
  | DRM_TRANSFER_FUNCTION_PQ
  | DRM_TRANSFER_FUNCTION_LINEAR
  | DRM_TRANSFER_FUNCTION_UNITY
  | DRM_TRANSFER_FUNCTION_HLG
  | DRM_TRANSFER_FUNCTION_GAMMA22
  | DRM_TRANSFER_FUNCTION_GAMMA24
  | DRM_TRANSFER_FUNCTION_GAMMA26

datatype dc_transfer_func_predefined =
    TRANSFER_FUNCTION_SRGB
  | TRANSFER_FUNCTION_BT709
  | TRANSFER_FUNCTION_PQ
  | TRANSFER_FUNCTION_LINEAR
  | TRANSFER_FUNCTION_UNITY
  | TRANSFER_FUNCTION_HLG
  | TRANSFER_FUNCTION_GAMMA22
  | TRANSFER_FUNCTION_GAMMA24
  | TRANSFER_FUNCTION_GAMMA26

datatype dc_transfer_func_type =
    TF_TYPE_PREDEFINED
  | TF_TYPE_DISTRIBUTED_POINTS
  | TF_TYPE_BYPASS
  | TF_TYPE_HWPWL

datatype dc_gamma_type =
    GAMMA_RGB_256
  | GAMMA_RGB_FLOAT_1024
  | GAMMA_CS_TFM_1D
  | GAMMA_CUSTOM

text \<open>
  \<^verbatim>\<open>struct dc_gamma\<close>: the fields this file writes (\<open>gamma_type\<close> is the C field
  \<^verbatim>\<open>type\<close>, the three lists are \<^verbatim>\<open>entries.red/green/blue\<close>).
\<close>

record dc_gamma =
  gamma_type :: dc_gamma_type
  num_entries :: u32
  entries_red :: "fixed31_32 list"
  entries_green :: "fixed31_32 list"
  entries_blue :: "fixed31_32 list"

text \<open>
  \<^verbatim>\<open>struct dc_transfer_func\<close>: \<open>tf_type\<close> is the C field \<^verbatim>\<open>type\<close>; \<open>tf_pts\<close> stands for
  the sample table that the colour module computes.
\<close>

record dc_transfer_func =
  tf_type :: dc_transfer_func_type
  tf :: dc_transfer_func_predefined
  sdr_ref_white_level :: u32
  tf_pts :: "fixed31_32 list"

record dc_rgb =
  rgb_red :: u32
  rgb_green :: u32
  rgb_blue :: u32

text \<open>
  \<^verbatim>\<open>struct dc_3dlut\<close>: the four sub-tables \<^verbatim>\<open>lut_3d.tetrahedral_17.lut0..lut3\<close>, the two
  mode flags of \<^verbatim>\<open>lut_3d\<close> and \<^verbatim>\<open>state.bits.initialized\<close>.
\<close>

record dc_3dlut =
  lut0 :: "dc_rgb list"
  lut1 :: "dc_rgb list"
  lut2 :: "dc_rgb list"
  lut3 :: "dc_rgb list"
  use_tetrahedral_9 :: bool
  use_12bits :: bool
  initialized :: bool

record colorspace_transform =
  matrix :: "fixed31_32 list"
  enable_remap :: bool

record dc_csc_transform =
  enable_adjustment :: bool

record dc_stream_state =
  out_transfer_func :: dc_transfer_func
  lut3d_func :: "dc_3dlut option"
  func_shaper :: "dc_transfer_func option"
  gamut_remap_matrix :: colorspace_transform
  csc_color_matrix :: dc_csc_transform

record drm_crtc_state =
  degamma_lut :: "lut_blob option"
  ctm :: "drm_color_ctm option"
  gamma_lut :: "lut_blob option"
  shaper_lut :: "lut_blob option"
  lut3d :: "lut_blob option"
  regamma_tf :: drm_transfer_function

record dm_crtc_state =
  base :: drm_crtc_state
  stream :: dc_stream_state
  cm_has_degamma :: bool
  cm_is_degamma_srgb :: bool

text \<open>
  The parts of \<^verbatim>\<open>struct amdgpu_device\<close> that the file reads: \<^verbatim>\<open>adev->asic_type\<close> (the
  position in \<^verbatim>\<open>enum amd_asic_type\<close>) and \<^verbatim>\<open>adev->dm.dc->caps.color.mpc.num_3dluts\<close>.
\<close>

record amdgpu_device =
  asic_type :: nat
  num_3dluts :: nat

text \<open>
  \<^verbatim>\<open>enum surface_pixel_format\<close> is declared in a display-core header that is not part of
  the sources. Its members here are the two formats that the file names, the two 10-bit
  4:2:0 video formats of the same enum, and every other format by a number.
\<close>

datatype surface_pixel_format =
    SURFACE_PIXEL_FORMAT_VIDEO_420_YCbCr
  | SURFACE_PIXEL_FORMAT_VIDEO_420_YCrCb
  | SURFACE_PIXEL_FORMAT_VIDEO_420_10bpc_YCbCr
  | SURFACE_PIXEL_FORMAT_VIDEO_420_10bpc_YCrCb
  | SURFACE_PIXEL_FORMAT_OTHER nat

text \<open>
  The fields of \<^verbatim>\<open>struct drm_plane_state\<close> and \<^verbatim>\<open>struct dc_plane_state\<close> that the file
  reads and writes (the plane's \<^verbatim>\<open>degamma_lut\<close>, \<^verbatim>\<open>degamma_tf\<close> and \<^verbatim>\<open>hdr_mult\<close> carry the
  prefix \<open>plane_\<close>).
\<close>

record drm_plane_state =
  plane_degamma_lut :: "lut_blob option"
  plane_degamma_tf :: drm_transfer_function
  plane_hdr_mult :: u64

record dc_plane_state =
  format :: surface_pixel_format
  in_transfer_func :: dc_transfer_func
  hdr_mult :: fixed31_32

subsection \<open>What the file takes from outside\<close>

text \<open>
  The callers of \<^verbatim>\<open>dc_create_gamma()\<close>. Each of them runs at most once in a call of an
  orchestrator, so the caller identifies the allocation.
\<close>

datatype gamma_user = In_set_legacy_tf | In_set_output_tf | In_set_input_tf | In_set_func_shaper

text \<open>
  Constants, helpers and collaborators that the file uses and other files define. They
  are parameters of the model, with no assumption on what they return:
  \<^item> \<open>MAX_COLOR_LUT_ENTRIES\<close>, the full LUT size, and \<open>CHIP_RAVEN\<close>;
  \<^item> \<open>drm_color_lut_extract\<close>, \<open>dc_fixpt_from_int\<close> and \<open>dc_fixpt_from_fraction\<close>;
  \<^item> \<open>dc_create_gamma\<close>: the zeroed buffer the allocation returns, or \<open>None\<close> (NULL);
  \<^item> \<open>mod_color_calculate_regamma_params func ramp mapUserRamp canRomBeUsed\<close> and
    \<open>mod_color_calculate_degamma_params func ramp mapUserRamp\<close>: whether the
    computation succeeded, and the transfer function it leaves behind;
  \<^item> \<open>mpc_3dlut_pool\<close> and \<open>mpc_3dlut_release\<close>: the free 3D-LUT and shaper pair of the
    hardware pool, if any, and whether a release succeeds.
\<close>

record externals =
  MAX_COLOR_LUT_ENTRIES :: u32
  CHIP_RAVEN :: nat
  drm_color_lut_extract :: "u32 \<Rightarrow> nat \<Rightarrow> u32"
  dc_fixpt_from_int :: "u32 \<Rightarrow> fixed31_32"
  dc_fixpt_from_fraction :: "u32 \<Rightarrow> u32 \<Rightarrow> fixed31_32"
  dc_create_gamma :: "gamma_user \<Rightarrow> dc_gamma option"
  mod_color_calculate_regamma_params ::
    "dc_transfer_func \<Rightarrow> dc_gamma option \<Rightarrow> bool \<Rightarrow> bool \<Rightarrow> bool \<times> dc_transfer_func"
  mod_color_calculate_degamma_params ::
    "dc_transfer_func \<Rightarrow> dc_gamma option \<Rightarrow> bool \<Rightarrow> bool \<times> dc_transfer_func"
  mpc_3dlut_pool :: "(dc_3dlut \<times> dc_transfer_func) option"
  mpc_3dlut_release :: bool

definition MAX_DRM_LUT_VALUE :: u32 where
  "MAX_DRM_LUT_VALUE = 0xFFFF"

text \<open>
  Modelled from the spec: \<^verbatim>\<open>MAX_COLOR_LEGACY_LUT_ENTRIES\<close> is defined in a header that is
  not part of the sources; the spec gives the legacy curve size as 256 entries.
\<close>

definition MAX_COLOR_LEGACY_LUT_ENTRIES :: u32 where
  "MAX_COLOR_LEGACY_LUT_ENTRIES = 256"

text \<open>
  Modelled from the spec: \<^verbatim>\<open>MAX_COLOR_3DLUT_ENTRIES\<close> is defined in a header that is not
  part of the sources; the spec gives the 3D LUT as 17 x 17 x 17 samples.
\<close>

definition MAX_COLOR_3DLUT_ENTRIES :: u32 where
  "MAX_COLOR_3DLUT_ENTRIES = 17 * 17 * 17"

text \<open>
  Modelled from the spec: \<^verbatim>\<open>dc_fixpt_zero\<close> is defined in the fixed-point header, which is
  not part of the sources; the spec has the fourth column of the matrix zero-filled.
\<close>

definition dc_fixpt_zero :: fixed31_32 where
  "dc_fixpt_zero = 0"

text \<open>
  Modelled from the spec: \<^verbatim>\<open>dc_fixpt_from_s3132\<close> is defined in the fixed-point header,
  which is not part of the sources; the spec has it convert a coefficient from
  sign-magnitude (bit 63 the sign, the other bits the magnitude) to two's complement.
\<close>

definition dc_fixpt_from_s3132 :: "u64 \<Rightarrow> fixed31_32" where
  "dc_fixpt_from_s3132 x =
     (if bit x 63 then - (x AND NOT (push_bit 63 1)) else x)"

text \<open>
  Modelled from the spec: \<^verbatim>\<open>dc_acquire_release_mpc_3dlut_for_ctx\<close> belongs to the display
  core, which is not part of the sources. By the spec the 3D LUT and the shaper are one
  unit of a limited pool: an acquire hands out both objects or fails when the pool is
  exhausted, a release leaves both pointers absent. The result is the success flag and
  the two pointers; a failed call leaves the pointers as they were.
\<close>

definition dc_acquire_release_mpc_3dlut_for_ctx ::
  "externals \<Rightarrow> bool \<Rightarrow> dc_3dlut option \<Rightarrow> dc_transfer_func option \<Rightarrow>
   bool \<times> dc_3dlut option \<times> dc_transfer_func option" where
  "dc_acquire_release_mpc_3dlut_for_ctx ext acquire lut shaper =
     (if acquire then
        (case mpc_3dlut_pool ext of
           None \<Rightarrow> (False, lut, shaper)
         | Some (l, s) \<Rightarrow> (True, Some l, Some s))
      else if mpc_3dlut_release ext then (True, None, None)
      else (False, lut, shaper))"

subsection \<open>Blob extraction and the linearity check\<close>

text \<open>\<^verbatim>\<open>__extract_blob_lut\<close>: the LUT (NULL without a blob) and, through \<^verbatim>\<open>*size\<close>, its size.\<close>

definition extract_blob_lut :: "lut_blob option \<Rightarrow> lut_blob option \<times> u32" where
  "extract_blob_lut blob =
     (blob, case blob of None \<Rightarrow> 0 | Some l \<Rightarrow> of_nat (length l))"

text \<open>
  The read \<^verbatim>\<open>lut[i]\<close> with \<^verbatim>\<open>int i\<close>: undefined below 0 and from the length of the
  array on.
\<close>

definition lut_at :: "drm_color_lut list \<Rightarrow> u32 \<Rightarrow> drm_color_lut option" where
  "lut_at lut i =
     (if sint i < 0 \<or> int (length lut) \<le> sint i then None
      else Some (lut ! nat (sint i)))"

text \<open>
  The loop of \<^verbatim>\<open>__is_lut_linear\<close> from index \<open>i\<close> on. The counter is the 32-bit pattern
  of \<^verbatim>\<open>int i\<close>. The comparison \<^verbatim>\<open>i < size\<close> and the division by \<^verbatim>\<open>size-1\<close> have a
  \<^verbatim>\<open>uint32_t\<close> operand, so both are unsigned. The \<^verbatim>\<open>int\<close> product
  \<^verbatim>\<open>i * MAX_DRM_LUT_VALUE\<close> wraps (the kernel is built with \<^verbatim>\<open>-fno-strict-overflow\<close>) and
  enters the division as the product modulo \<open>2 ^ 32\<close>; the division truncates.
  \<^verbatim>\<open>delta\<close> is the unsigned difference read back as an \<^verbatim>\<open>int\<close>. Dividing by
  \<^verbatim>\<open>size - 1 = 0\<close> is undefined.
\<close>

function is_lut_linear_from :: "drm_color_lut list \<Rightarrow> u32 \<Rightarrow> u32 \<Rightarrow> bool option" where
  "is_lut_linear_from lut size' i =
     (if i < size' then
        (case lut_at lut i of
           None \<Rightarrow> None
         | Some e \<Rightarrow>
             if red e \<noteq> green e \<or> green e \<noteq> blue e then Some False
             else if size' - 1 = 0 then None
             else
               (let expected = (i * MAX_DRM_LUT_VALUE) div (size' - 1);
                    delta = sint (ucast (red e) - expected)
                in if delta < - 1 \<or> 1 < delta then Some False
                   else is_lut_linear_from lut size' (i + 1)))
      else Some True)"
  by pat_completeness auto
termination
proof (relation "measure (\<lambda>(lut, size', i). unat size' - unat i)")
  show "wf (measure (\<lambda>(lut, size', i). unat size' - unat i))" by simp
next
  fix lut :: "drm_color_lut list" and size' i :: u32
  assume "i < size'"
  then have lt: "unat i < unat size'" by (simp add: word_less_nat_alt)
  moreover have "unat size' < 2 ^ 32" using unsigned_less [of size'] by simp
  ultimately have "unat i + 1 < 2 ^ 32" by simp
  then have "unat (i + 1) = Suc (unat i)" by (simp add: unat_word_ariths)
  with lt show "((lut, size', i + 1), (lut, size', i)) \<in> measure (\<lambda>(lut, size', i). unat size' - unat i)"
    by simp
qed

declare is_lut_linear_from.simps [simp del]

definition is_lut_linear :: "drm_color_lut list \<Rightarrow> u32 \<Rightarrow> bool option" where
  "is_lut_linear lut size' = is_lut_linear_from lut size' 0"

subsection \<open>Numeric conversion\<close>

text \<open>
  The entries \<^verbatim>\<open>lut[0]\<close> to \<^verbatim>\<open>lut[n-1]\<close> that a conversion loop reads: undefined when
  the LUT is NULL or shorter than \<open>n\<close>.
\<close>

definition lut_prefix :: "lut_blob option \<Rightarrow> nat \<Rightarrow> drm_color_lut list option" where
  "lut_prefix lut n =
     (if n = 0 then Some []
      else case lut of
             None \<Rightarrow> None
           | Some l \<Rightarrow> if n \<le> length l then Some (take n l) else None)"

text \<open>
  \<^verbatim>\<open>__drm_lut_to_dc_gamma\<close>: the first \<^verbatim>\<open>MAX_COLOR_LEGACY_LUT_ENTRIES\<close> (legacy) or
  \<^verbatim>\<open>MAX_COLOR_LUT_ENTRIES\<close> entries of the three channel arrays are overwritten, whatever
  the size of the LUT is. The arrays of \<^verbatim>\<open>struct dc_gamma\<close> are taken to hold that many
  entries.
\<close>

definition drm_lut_to_dc_gamma ::
  "externals \<Rightarrow> lut_blob option \<Rightarrow> dc_gamma \<Rightarrow> bool \<Rightarrow> dc_gamma option" where
  "drm_lut_to_dc_gamma ext lut gamma is_legacy =
     (if is_legacy then
        (let n = unat MAX_COLOR_LEGACY_LUT_ENTRIES in
         case lut_prefix lut n of
           None \<Rightarrow> None
         | Some es \<Rightarrow> Some (gamma
             \<lparr>entries_red :=
                map (\<lambda>e. dc_fixpt_from_int ext (drm_color_lut_extract ext (ucast (red e)) 16)) es
                  @ drop n (entries_red gamma),
              entries_green :=
                map (\<lambda>e. dc_fixpt_from_int ext (drm_color_lut_extract ext (ucast (green e)) 16)) es
                  @ drop n (entries_green gamma),
              entries_blue :=
                map (\<lambda>e. dc_fixpt_from_int ext (drm_color_lut_extract ext (ucast (blue e)) 16)) es
                  @ drop n (entries_blue gamma)\<rparr>))
      else
        (let n = unat (MAX_COLOR_LUT_ENTRIES ext) in
         case lut_prefix lut n of
           None \<Rightarrow> None
         | Some es \<Rightarrow> Some (gamma
             \<lparr>entries_red :=
                map (\<lambda>e. dc_fixpt_from_fraction ext
                             (drm_color_lut_extract ext (ucast (red e)) 16) MAX_DRM_LUT_VALUE) es
                  @ drop n (entries_red gamma),
              entries_green :=
                map (\<lambda>e. dc_fixpt_from_fraction ext
                             (drm_color_lut_extract ext (ucast (green e)) 16) MAX_DRM_LUT_VALUE) es
                  @ drop n (entries_green gamma),
              entries_blue :=
                map (\<lambda>e. dc_fixpt_from_fraction ext
                             (drm_color_lut_extract ext (ucast (blue e)) 16) MAX_DRM_LUT_VALUE) es
                  @ drop n (entries_blue gamma)\<rparr>)))"

text \<open>
  \<^verbatim>\<open>__drm_ctm_to_dc_matrix\<close>: the loop over \<^verbatim>\<open>i = 0 .. 11\<close>, each step one write to
  \<^verbatim>\<open>matrix[i]\<close>. By their C types \<^verbatim>\<open>ctm->matrix\<close> has 9 entries and \<^verbatim>\<open>matrix\<close> has 12,
  so no index of the loop is out of range.
\<close>

definition drm_ctm_to_dc_matrix :: "drm_color_ctm \<Rightarrow> fixed31_32 list \<Rightarrow> fixed31_32 list" where
  "drm_ctm_to_dc_matrix ctm' matrix' =
     fold (\<lambda>i m. if i mod 4 = 3 then m[i := dc_fixpt_zero]
                  else m[i := dc_fixpt_from_s3132 (ctm' ! (i - (i div 4)))])
          [0..<12] matrix'"

subsection \<open>Stage builders\<close>

text \<open>
  \<^verbatim>\<open>ASSERT\<close> only warns, so it is not part of the model. The \<^verbatim>\<open>calculate_buffer\<close> is
  scratch memory of the colour module.
\<close>

definition set_legacy_tf ::
  "externals \<Rightarrow> dc_transfer_func \<Rightarrow> lut_blob option \<Rightarrow> u32 \<Rightarrow> bool \<Rightarrow>
   (retval \<times> dc_transfer_func) option" where
  "set_legacy_tf ext func lut lut_size has_rom =
     (case dc_create_gamma ext In_set_legacy_tf of
        None \<Rightarrow> Some (ENOMEM, func)
      | Some gamma \<Rightarrow>
          (case drm_lut_to_dc_gamma ext lut
                  (gamma\<lparr>gamma_type := GAMMA_RGB_256, num_entries := lut_size\<rparr>) True of
             None \<Rightarrow> None
           | Some gamma' \<Rightarrow>
               (let (res, func') =
                      mod_color_calculate_regamma_params ext func (Some gamma') True has_rom
                in Some (if res then OK else ENOMEM, func'))))"

text \<open>
  \<^verbatim>\<open>__set_output_tf\<close> in two parts: \<open>set_output_tf_params\<close> is the function from the test
  of \<^verbatim>\<open>func->tf\<close> on, with \<open>gamma\<close> the buffer built before it (NULL when
  \<^verbatim>\<open>lut_size\<close> is 0).
\<close>

definition set_output_tf_params ::
  "externals \<Rightarrow> dc_transfer_func \<Rightarrow> dc_gamma option \<Rightarrow> bool \<Rightarrow> retval \<times> dc_transfer_func" where
  "set_output_tf_params ext func gamma has_rom =
     (let (res, func') =
        (if tf func = TRANSFER_FUNCTION_LINEAR
         then mod_color_calculate_degamma_params ext func
                (map_option (\<lambda>g. g\<lparr>gamma_type := GAMMA_CUSTOM\<rparr>) gamma) (gamma \<noteq> None)
         else mod_color_calculate_regamma_params ext func
                (map_option (\<lambda>g. g\<lparr>gamma_type := GAMMA_CS_TFM_1D\<rparr>) gamma) (gamma \<noteq> None)
                has_rom)
      in (if res then OK else ENOMEM, func'))"

definition set_output_tf ::
  "externals \<Rightarrow> dc_transfer_func \<Rightarrow> lut_blob option \<Rightarrow> u32 \<Rightarrow> bool \<Rightarrow>
   (retval \<times> dc_transfer_func) option" where
  "set_output_tf ext func lut lut_size has_rom =
     (if lut_size \<noteq> 0 then
        (case dc_create_gamma ext In_set_output_tf of
           None \<Rightarrow> Some (ENOMEM, func)
         | Some gamma \<Rightarrow>
             (case drm_lut_to_dc_gamma ext lut (gamma\<lparr>num_entries := lut_size\<rparr>) False of
                None \<Rightarrow> None
              | Some gamma' \<Rightarrow> Some (set_output_tf_params ext func (Some gamma') has_rom)))
      else Some (set_output_tf_params ext func None has_rom))"

text \<open>
  \<^verbatim>\<open>amdgpu_dm_set_atomic_regamma\<close>: the stream comes back with its output transfer
  function updated, also when the builder fails.
\<close>

definition amdgpu_dm_set_atomic_regamma ::
  "externals \<Rightarrow> dc_stream_state \<Rightarrow> lut_blob option \<Rightarrow> u32 \<Rightarrow> bool \<Rightarrow>
   dc_transfer_func_predefined \<Rightarrow> (retval \<times> dc_stream_state) option" where
  "amdgpu_dm_set_atomic_regamma ext stream' regamma_lut regamma_size has_rom tf' =
     (if regamma_size \<noteq> 0 \<or> tf' \<noteq> TRANSFER_FUNCTION_LINEAR then
        (case set_output_tf ext
                ((out_transfer_func stream')
                   \<lparr>tf_type := TF_TYPE_DISTRIBUTED_POINTS, tf := tf', sdr_ref_white_level := 80\<rparr>)
                regamma_lut regamma_size has_rom of
           None \<Rightarrow> None
         | Some (ret, func) \<Rightarrow> Some (ret, stream'\<lparr>out_transfer_func := func\<rparr>))
      else
        Some (OK, stream'\<lparr>out_transfer_func :=
                (out_transfer_func stream')
                  \<lparr>tf_type := TF_TYPE_BYPASS, tf := TRANSFER_FUNCTION_LINEAR\<rparr>\<rparr>))"

definition set_input_tf ::
  "externals \<Rightarrow> dc_transfer_func \<Rightarrow> lut_blob option \<Rightarrow> u32 \<Rightarrow>
   (retval \<times> dc_transfer_func) option" where
  "set_input_tf ext func lut lut_size =
     (case dc_create_gamma ext In_set_input_tf of
        None \<Rightarrow> Some (ENOMEM, func)
      | Some gamma \<Rightarrow>
          (case drm_lut_to_dc_gamma ext lut
                  (gamma\<lparr>gamma_type := GAMMA_CUSTOM, num_entries := lut_size\<rparr>) False of
             None \<Rightarrow> None
           | Some gamma' \<Rightarrow>
               (let (res, func') = mod_color_calculate_degamma_params ext func (Some gamma') True
                in Some (if res then OK else ENOMEM, func'))))"

definition set_func_shaper ::
  "externals \<Rightarrow> dc_transfer_func \<Rightarrow> lut_blob option \<Rightarrow> u32 \<Rightarrow>
   (retval \<times> dc_transfer_func) option" where
  "set_func_shaper ext shaper_func lut lut_size =
     (case dc_create_gamma ext In_set_func_shaper of
        None \<Rightarrow> Some (ENOMEM, shaper_func)
      | Some gamma \<Rightarrow>
          (case drm_lut_to_dc_gamma ext lut (gamma\<lparr>num_entries := lut_size\<rparr>) False of
             None \<Rightarrow> None
           | Some gamma' \<Rightarrow>
               (let (res, func') =
                      mod_color_calculate_degamma_params ext shaper_func
                        (Some (gamma'\<lparr>gamma_type := GAMMA_CUSTOM\<rparr>)) True
                in Some (if res then OK else ENOMEM, func'))))"

subsection \<open>Shaper and 3D LUT\<close>

definition to_dc_lut3d_color :: "externals \<Rightarrow> drm_color_lut \<Rightarrow> nat \<Rightarrow> dc_rgb" where
  "to_dc_lut3d_color ext lut bit_precision =
     \<lparr>rgb_red = drm_color_lut_extract ext (ucast (red lut)) bit_precision,
      rgb_green = drm_color_lut_extract ext (ucast (green lut)) bit_precision,
      rgb_blue = drm_color_lut_extract ext (ucast (blue lut)) bit_precision\<rparr>"

text \<open>
  The loop of \<^verbatim>\<open>__drm_3dlut_to_dc_3dlut\<close>, with \<^verbatim>\<open>lut_i\<close> and \<^verbatim>\<open>i\<close> as they stand
  before a step; the bound \<^verbatim>\<open>lut_size - 4\<close> is unsigned. A read beyond the LUT or a
  write beyond a sub-table is undefined. The result has the counters after the loop.
\<close>

function drm_3dlut_loop ::
  "externals \<Rightarrow> drm_color_lut list \<Rightarrow> u32 \<Rightarrow> nat \<Rightarrow> nat \<Rightarrow> dc_3dlut \<Rightarrow>
   (nat \<times> nat \<times> dc_3dlut) option" where
  "drm_3dlut_loop ext lut lut_size lut_i i l3d =
     (if i < unat (lut_size - 4) then
        (if length lut \<le> i + 3 \<or> length (lut0 l3d) \<le> lut_i \<or> length (lut1 l3d) \<le> lut_i \<or>
            length (lut2 l3d) \<le> lut_i \<or> length (lut3 l3d) \<le> lut_i
         then None
         else drm_3dlut_loop ext lut lut_size (lut_i + 1) (i + 4)
                (l3d\<lparr>lut0 := (lut0 l3d)[lut_i := to_dc_lut3d_color ext (lut ! i) 12],
                      lut1 := (lut1 l3d)[lut_i := to_dc_lut3d_color ext (lut ! (i + 1)) 12],
                      lut2 := (lut2 l3d)[lut_i := to_dc_lut3d_color ext (lut ! (i + 2)) 12],
                      lut3 := (lut3 l3d)[lut_i := to_dc_lut3d_color ext (lut ! (i + 3)) 12]\<rparr>))
      else Some (lut_i, i, l3d))"
  by pat_completeness auto
termination
  by (relation "measure (\<lambda>(ext, lut, lut_size, lut_i, i, l3d). unat (lut_size - 4) - i)") auto

declare drm_3dlut_loop.simps [simp del]

definition drm_3dlut_to_dc_3dlut ::
  "externals \<Rightarrow> drm_color_lut list \<Rightarrow> u32 \<Rightarrow> dc_3dlut \<Rightarrow> dc_3dlut option" where
  "drm_3dlut_to_dc_3dlut ext lut lut_size l3d =
     (case drm_3dlut_loop ext lut lut_size 0 0 l3d of
        None \<Rightarrow> None
      | Some (lut_i, i, l3d') \<Rightarrow>
          if length lut \<le> i \<or> length (lut0 l3d') \<le> lut_i then None
          else Some (l3d'\<lparr>lut0 := (lut0 l3d')[lut_i := to_dc_lut3d_color ext (lut ! i) 12]\<rparr>))"

text \<open>
  \<^verbatim>\<open>amdgpu_dm_atomic_lut3d\<close>: the 3D LUT object is filled in place and the stream points
  to it.
\<close>

definition amdgpu_dm_atomic_lut3d ::
  "externals \<Rightarrow> dc_stream_state \<Rightarrow> lut_blob option \<Rightarrow> u32 \<Rightarrow> dc_3dlut option \<Rightarrow>
   dc_stream_state option" where
  "amdgpu_dm_atomic_lut3d ext stream' lut lut_size l3d =
     (case (lut, l3d) of
        (Some lut', Some l3d') \<Rightarrow>
          (case drm_3dlut_to_dc_3dlut ext lut' lut_size l3d' of
             None \<Rightarrow> None
           | Some l \<Rightarrow>
               Some (stream'\<lparr>lut3d_func :=
                       Some (l\<lparr>use_tetrahedral_9 := False, use_12bits := True,
                               initialized := True\<rparr>)\<rparr>))
      | _ \<Rightarrow> None)"

text \<open>
  \<^verbatim>\<open>amdgpu_dm_atomic_shaper_lut\<close>: the result has the return code, the stream and the
  shaper object \<^verbatim>\<open>func_shaper_new\<close> as the call leaves it. On failure the function
  returns before it stores the pointer in the stream.
\<close>

definition amdgpu_dm_atomic_shaper_lut ::
  "externals \<Rightarrow> dc_stream_state \<Rightarrow> lut_blob option \<Rightarrow> u32 \<Rightarrow> dc_transfer_func \<Rightarrow>
   (retval \<times> dc_stream_state \<times> dc_transfer_func) option" where
  "amdgpu_dm_atomic_shaper_lut ext stream' shaper_lut' shaper_size func_shaper_new =
     (if shaper_size = 0 then
        (let f = func_shaper_new\<lparr>tf_type := TF_TYPE_BYPASS, tf := TRANSFER_FUNCTION_LINEAR\<rparr>
         in Some (OK, stream'\<lparr>func_shaper := Some f\<rparr>, f))
      else
        (case set_func_shaper ext
                (func_shaper_new\<lparr>tf_type := TF_TYPE_DISTRIBUTED_POINTS,
                                  tf := TRANSFER_FUNCTION_LINEAR\<rparr>)
                shaper_lut' shaper_size of
           None \<Rightarrow> None
         | Some (r, f) \<Rightarrow>
             if r \<noteq> OK then Some (r, stream', f)
             else Some (OK, stream'\<lparr>func_shaper := Some f\<rparr>, f)))"

text \<open>
  \<^verbatim>\<open>amdgpu_dm_atomic_shaper_lut3d\<close>. The stream's two pointers are stored before the
  objects are filled, so the stream sees the shaper object as
  \<^verbatim>\<open>amdgpu_dm_atomic_shaper_lut\<close> leaves it, also when that call fails.
\<close>

definition amdgpu_dm_atomic_shaper_lut3d ::
  "externals \<Rightarrow> dc_stream_state \<Rightarrow> lut_blob option \<Rightarrow> u32 \<Rightarrow> lut_blob option \<Rightarrow> u32 \<Rightarrow>
   (retval \<times> dc_stream_state) option" where
  "amdgpu_dm_atomic_shaper_lut3d ext stream' drm_shaper_lut drm_shaper_size drm_lut3d drm_lut3d_size =
     (let acquire = (drm_shaper_size \<noteq> 0 \<and> drm_lut3d_size \<noteq> 0);
          l3d = lut3d_func stream';
          shaper = func_shaper stream';
          (ok, l3d', shaper') =
            (if (acquire \<and> l3d = None \<and> shaper = None) \<or>
                (\<not> acquire \<and> l3d \<noteq> None \<and> shaper \<noteq> None)
             then dc_acquire_release_mpc_3dlut_for_ctx ext acquire l3d shaper
             else (True, l3d, shaper))
      in if \<not> ok then Some (DC_ERROR_UNEXPECTED, stream')
         else
           (let stream1 = stream'\<lparr>lut3d_func := l3d', func_shaper := shaper'\<rparr>
            in if \<not> acquire then Some (OK, stream1)
               else
                 (case amdgpu_dm_atomic_lut3d ext stream1 drm_lut3d drm_lut3d_size l3d' of
                    None \<Rightarrow> None
                  | Some stream2 \<Rightarrow>
                      (case shaper' of
                         None \<Rightarrow> None
                       | Some fs \<Rightarrow>
                           (case amdgpu_dm_atomic_shaper_lut ext stream2 drm_shaper_lut
                                   drm_shaper_size fs of
                              None \<Rightarrow> None
                            | Some (r, stream3, fs') \<Rightarrow>
                                Some (r, stream3\<lparr>func_shaper := Some fs'\<rparr>))))))"

subsection \<open>Size validation\<close>

definition amdgpu_dm_get_lut3d_size :: "amdgpu_device \<Rightarrow> u32 \<Rightarrow> u32" where
  "amdgpu_dm_get_lut3d_size adev lut_size = (if num_3dluts adev \<noteq> 0 then lut_size else 0)"

definition amdgpu_dm_verify_lut3d_size ::
  "externals \<Rightarrow> amdgpu_device \<Rightarrow> drm_crtc_state \<Rightarrow> retval" where
  "amdgpu_dm_verify_lut3d_size ext adev crtc_state =
     (let exp_size = amdgpu_dm_get_lut3d_size adev (MAX_COLOR_LUT_ENTRIES ext);
          (shaper, size') = extract_blob_lut (shaper_lut crtc_state)
      in if shaper \<noteq> None \<and> size' \<noteq> exp_size then EINVAL
         else
           (let exp_size = amdgpu_dm_get_lut3d_size adev MAX_COLOR_3DLUT_ENTRIES;
                (l3d, size') = extract_blob_lut (lut3d crtc_state)
            in if l3d \<noteq> None \<and> size' \<noteq> exp_size then EINVAL else OK))"

definition amdgpu_dm_verify_lut_sizes :: "externals \<Rightarrow> drm_crtc_state \<Rightarrow> retval" where
  "amdgpu_dm_verify_lut_sizes ext crtc_state =
     (let (lut, size') = extract_blob_lut (degamma_lut crtc_state)
      in if lut \<noteq> None \<and> size' \<noteq> MAX_COLOR_LUT_ENTRIES ext then EINVAL
         else
           (let (lut, size') = extract_blob_lut (gamma_lut crtc_state)
            in if lut \<noteq> None \<and> size' \<noteq> MAX_COLOR_LUT_ENTRIES ext \<and>
                  size' \<noteq> MAX_COLOR_LEGACY_LUT_ENTRIES
               then EINVAL else OK))"

subsection \<open>The output (CRTC) orchestrator\<close>

fun drm_tf_to_dc_tf :: "drm_transfer_function \<Rightarrow> dc_transfer_func_predefined" where
  "drm_tf_to_dc_tf DRM_TRANSFER_FUNCTION_DEFAULT = TRANSFER_FUNCTION_LINEAR"
| "drm_tf_to_dc_tf DRM_TRANSFER_FUNCTION_SRGB = TRANSFER_FUNCTION_SRGB"
| "drm_tf_to_dc_tf DRM_TRANSFER_FUNCTION_BT709 = TRANSFER_FUNCTION_BT709"
| "drm_tf_to_dc_tf DRM_TRANSFER_FUNCTION_PQ = TRANSFER_FUNCTION_PQ"
| "drm_tf_to_dc_tf DRM_TRANSFER_FUNCTION_LINEAR = TRANSFER_FUNCTION_LINEAR"
| "drm_tf_to_dc_tf DRM_TRANSFER_FUNCTION_UNITY = TRANSFER_FUNCTION_UNITY"
| "drm_tf_to_dc_tf DRM_TRANSFER_FUNCTION_HLG = TRANSFER_FUNCTION_HLG"
| "drm_tf_to_dc_tf DRM_TRANSFER_FUNCTION_GAMMA22 = TRANSFER_FUNCTION_GAMMA22"
| "drm_tf_to_dc_tf DRM_TRANSFER_FUNCTION_GAMMA24 = TRANSFER_FUNCTION_GAMMA24"
| "drm_tf_to_dc_tf DRM_TRANSFER_FUNCTION_GAMMA26 = TRANSFER_FUNCTION_GAMMA26"

text \<open>
  The C expression \<^verbatim>\<open>lut && !__is_lut_linear(lut, size)\<close> that computes
  \<^verbatim>\<open>has_degamma\<close> and \<^verbatim>\<open>has_regamma\<close>: the check runs only on a LUT that is there.
\<close>

definition lut_is_nonlinear :: "lut_blob option \<Rightarrow> u32 \<Rightarrow> bool option" where
  "lut_is_nonlinear lut size' =
     (case lut of
        None \<Rightarrow> Some False
      | Some l \<Rightarrow> map_option Not (is_lut_linear l size'))"

text \<open>
  The block \<^verbatim>\<open>if (is_legacy) { ... } else { ... }\<close> of
  \<^verbatim>\<open>amdgpu_dm_update_crtc_color_mgmt\<close>, which sets up regamma, shaper and 3D LUT. It
  starts from the state after \<^verbatim>\<open>cm_has_degamma\<close> and \<^verbatim>\<open>cm_is_degamma_srgb\<close> were reset;
  the result has the code that a \<^verbatim>\<open>return r\<close> of the block would return (\<open>OK\<close> when
  the block runs to its end) and the state at that point.
\<close>

definition crtc_setup_regamma ::
  "externals \<Rightarrow> dm_crtc_state \<Rightarrow> bool \<Rightarrow> bool \<Rightarrow> bool \<Rightarrow> (retval \<times> dm_crtc_state) option" where
  "crtc_setup_regamma ext crtc has_rom has_regamma is_legacy =
     (let (shaper_lut', shaper_size) = extract_blob_lut (shaper_lut (base crtc));
          (lut3d', lut3d_size) = extract_blob_lut (lut3d (base crtc));
          (regamma_lut, regamma_size) = extract_blob_lut (gamma_lut (base crtc));
          has_shaper_lut = (shaper_lut' \<noteq> None);
          has_lut3d = (lut3d' \<noteq> None);
          tf' = drm_tf_to_dc_tf (regamma_tf (base crtc))
      in
      if is_legacy then
        (case set_legacy_tf ext
                ((out_transfer_func (stream crtc))
                   \<lparr>tf_type := TF_TYPE_DISTRIBUTED_POINTS, tf := TRANSFER_FUNCTION_SRGB\<rparr>)
                regamma_lut regamma_size has_rom of
           None \<Rightarrow> None
         | Some (r, func) \<Rightarrow>
             Some (r, crtc\<lparr>cm_is_degamma_srgb := True,
                           stream := (stream crtc)\<lparr>out_transfer_func := func\<rparr>\<rparr>))
      else
        (case (if has_lut3d
               then amdgpu_dm_atomic_shaper_lut3d ext (stream crtc) shaper_lut'
                      (if has_shaper_lut then shaper_size else 0) lut3d' lut3d_size
               else amdgpu_dm_atomic_shaper_lut3d ext (stream crtc) None 0 None 0) of
           None \<Rightarrow> None
         | Some (r, stream1) \<Rightarrow>
             if r \<noteq> OK then Some (r, crtc\<lparr>stream := stream1\<rparr>)
             else
               (case amdgpu_dm_set_atomic_regamma ext stream1 regamma_lut
                       (if has_regamma then regamma_size else 0) has_rom tf' of
                  None \<Rightarrow> None
                | Some (r, stream2) \<Rightarrow> Some (r, crtc\<lparr>stream := stream2\<rparr>))))"

text \<open>
  The block \<^verbatim>\<open>if (crtc->base.ctm) { ... } else { ... }\<close> at the end of
  \<^verbatim>\<open>amdgpu_dm_update_crtc_color_mgmt\<close>, which sets up the CRTC CTM.
\<close>

definition crtc_setup_ctm :: "dm_crtc_state \<Rightarrow> dm_crtc_state" where
  "crtc_setup_ctm crtc =
     (case ctm (base crtc) of
        Some ctm' \<Rightarrow>
          crtc\<lparr>stream := (stream crtc)
            \<lparr>gamut_remap_matrix := (gamut_remap_matrix (stream crtc))
               \<lparr>matrix := drm_ctm_to_dc_matrix ctm' (matrix (gamut_remap_matrix (stream crtc))),
                enable_remap := True\<rparr>,
             csc_color_matrix := (csc_color_matrix (stream crtc))
               \<lparr>enable_adjustment := False\<rparr>\<rparr>\<rparr>
      | None \<Rightarrow>
          crtc\<lparr>stream := (stream crtc)
            \<lparr>gamut_remap_matrix := (gamut_remap_matrix (stream crtc))\<lparr>enable_remap := False\<rparr>,
             csc_color_matrix := (csc_color_matrix (stream crtc))
               \<lparr>enable_adjustment := False\<rparr>\<rparr>\<rparr>)"

text \<open>
  \<^verbatim>\<open>amdgpu_dm_update_crtc_color_mgmt\<close>. \<^verbatim>\<open>adev\<close> is the device of the CRTC. The result
  has the return code and the CRTC state at the return, so a failure is seen together
  with what the function had written before it.
\<close>

definition amdgpu_dm_update_crtc_color_mgmt ::
  "externals \<Rightarrow> amdgpu_device \<Rightarrow> dm_crtc_state \<Rightarrow> (retval \<times> dm_crtc_state) option" where
  "amdgpu_dm_update_crtc_color_mgmt ext adev crtc =
     (let has_rom = (asic_type adev \<le> CHIP_RAVEN ext) in
      if amdgpu_dm_verify_lut_sizes ext (base crtc) \<noteq> OK
      then Some (amdgpu_dm_verify_lut_sizes ext (base crtc), crtc)
      else if amdgpu_dm_verify_lut3d_size ext adev (base crtc) \<noteq> OK
      then Some (amdgpu_dm_verify_lut3d_size ext adev (base crtc), crtc)
      else
        (let (degamma_lut', degamma_size) = extract_blob_lut (degamma_lut (base crtc));
             (regamma_lut, regamma_size) = extract_blob_lut (gamma_lut (base crtc))
         in
         case lut_is_nonlinear degamma_lut' degamma_size of
           None \<Rightarrow> None
         | Some has_degamma \<Rightarrow>
         (case lut_is_nonlinear regamma_lut regamma_size of
           None \<Rightarrow> None
         | Some has_regamma \<Rightarrow>
         (let is_legacy = (regamma_size = MAX_COLOR_LEGACY_LUT_ENTRIES) in
          case crtc_setup_regamma ext
                 (crtc\<lparr>cm_has_degamma := False, cm_is_degamma_srgb := False\<rparr>)
                 has_rom has_regamma is_legacy of
            None \<Rightarrow> None
          | Some (r, crtc1) \<Rightarrow>
              if r \<noteq> OK then Some (r, crtc1)
              else Some (OK, crtc_setup_ctm (crtc1\<lparr>cm_has_degamma := has_degamma\<rparr>))))))"

subsection \<open>The surface (plane) orchestrator\<close>

text \<open>
  The base transfer function for implicit degamma: \<^verbatim>\<open>tf\<close> starts as
  \<^verbatim>\<open>TRANSFER_FUNCTION_SRGB\<close>, and the \<^verbatim>\<open>switch\<close> on the format replaces it for its two
  \<^verbatim>\<open>case\<close> labels only; \<^verbatim>\<open>default\<close> leaves it.
\<close>

fun implicit_degamma_tf :: "surface_pixel_format \<Rightarrow> dc_transfer_func_predefined" where
  "implicit_degamma_tf SURFACE_PIXEL_FORMAT_VIDEO_420_YCbCr = TRANSFER_FUNCTION_BT709"
| "implicit_degamma_tf SURFACE_PIXEL_FORMAT_VIDEO_420_YCrCb = TRANSFER_FUNCTION_BT709"
| "implicit_degamma_tf SURFACE_PIXEL_FORMAT_VIDEO_420_10bpc_YCbCr = TRANSFER_FUNCTION_SRGB"
| "implicit_degamma_tf SURFACE_PIXEL_FORMAT_VIDEO_420_10bpc_YCrCb = TRANSFER_FUNCTION_SRGB"
| "implicit_degamma_tf (SURFACE_PIXEL_FORMAT_OTHER n) = TRANSFER_FUNCTION_SRGB"

definition amdgpu_dm_update_plane_color_mgmt ::
  "externals \<Rightarrow> dm_crtc_state \<Rightarrow> drm_plane_state \<Rightarrow> dc_plane_state \<Rightarrow>
   (retval \<times> dc_plane_state) option" where
  "amdgpu_dm_update_plane_color_mgmt ext crtc plane_state dc_plane =
     (let (degamma_lut', degamma_size) = extract_blob_lut (plane_degamma_lut plane_state) in
      case lut_is_nonlinear degamma_lut' degamma_size of
        None \<Rightarrow> None
      | Some has_degamma \<Rightarrow>
      (let drm_tf = plane_degamma_tf plane_state;
           dc_plane1 = dc_plane\<lparr>hdr_mult := dc_fixpt_from_s3132 (plane_hdr_mult plane_state)\<rparr>;
           tf' = implicit_degamma_tf (format dc_plane1);
           func = in_transfer_func dc_plane1
       in
       if has_degamma then
         (case set_input_tf ext
                 (func\<lparr>tf_type := TF_TYPE_DISTRIBUTED_POINTS, tf := drm_tf_to_dc_tf drm_tf\<rparr>)
                 degamma_lut' degamma_size of
            None \<Rightarrow> None
          | Some (r, func') \<Rightarrow> Some (r, dc_plane1\<lparr>in_transfer_func := func'\<rparr>))
       else if drm_tf \<noteq> DRM_TRANSFER_FUNCTION_DEFAULT then
         (let (res, func') =
                mod_color_calculate_degamma_params ext
                  (func\<lparr>tf_type := TF_TYPE_PREDEFINED, tf := drm_tf_to_dc_tf drm_tf\<rparr>)
                  None False
          in Some (if res then OK else ENOMEM, dc_plane1\<lparr>in_transfer_func := func'\<rparr>))
       else if cm_has_degamma crtc then
         (let (crtc_lut, crtc_size) = extract_blob_lut (degamma_lut (base crtc)) in
          case set_input_tf ext
                 (func\<lparr>tf_type := TF_TYPE_DISTRIBUTED_POINTS,
                        tf := (if cm_is_degamma_srgb crtc then tf'
                               else TRANSFER_FUNCTION_LINEAR)\<rparr>)
                 crtc_lut crtc_size of
            None \<Rightarrow> None
          | Some (r, func') \<Rightarrow> Some (r, dc_plane1\<lparr>in_transfer_func := func'\<rparr>))
       else if cm_is_degamma_srgb crtc then
         (let func1 = func\<lparr>tf_type := TF_TYPE_PREDEFINED, tf := tf'\<rparr> in
          if tf' \<noteq> TRANSFER_FUNCTION_SRGB then
            (let (res, func') = mod_color_calculate_degamma_params ext func1 None False
             in Some (if res then OK else ENOMEM, dc_plane1\<lparr>in_transfer_func := func'\<rparr>))
          else Some (OK, dc_plane1\<lparr>in_transfer_func := func1\<rparr>))
       else
         Some (OK, dc_plane1\<lparr>in_transfer_func :=
                 func\<lparr>tf_type := TF_TYPE_BYPASS, tf := TRANSFER_FUNCTION_LINEAR\<rparr>\<rparr>)))"

subsection \<open>The linearity check as the spec words it\<close>

text \<open>
  The spec's reading of the check, for comparison with \<open>is_lut_linear\<close>: the expected
  value of sample \<open>i\<close> of \<open>N\<close> is \<open>round (i * 65535 / (N - 1))\<close>, and a curve is linear
  when every sample has three equal channels within 1 of the expected value.
\<close>

definition spec_expected :: "nat \<Rightarrow> nat \<Rightarrow> int" where
  "spec_expected i n = round (real (i * 65535) / real (n - 1))"

definition spec_is_lut_linear :: "drm_color_lut list \<Rightarrow> bool" where
  "spec_is_lut_linear lut =
     list_all (\<lambda>i. red (lut ! i) = green (lut ! i) \<and> green (lut ! i) = blue (lut ! i) \<and>
                    \<bar>int (unat (red (lut ! i))) - spec_expected i (length lut)\<bar> \<le> 1)
              [0..<length lut]"

text \<open>A sample with three equal channels.\<close>

definition grey :: "u16 \<Rightarrow> drm_color_lut" where
  "grey v = \<lparr>red = v, green = v, blue = v, reserved = 0\<rparr>"

text \<open>
  What \<open>is_lut_linear\<close> accepts at sample \<open>i\<close>: equal channels, within 1 of the
  truncated quotient of the 32-bit product by \<open>length lut - 1\<close>.
\<close>

definition lut_sample_linear :: "drm_color_lut list \<Rightarrow> nat \<Rightarrow> bool" where
  "lut_sample_linear lut i =
     (red (lut ! i) = green (lut ! i) \<and> green (lut ! i) = blue (lut ! i) \<and>
      \<bar>int (unat (red (lut ! i))) - int ((i * 65535 mod 2 ^ 32) div (length lut - 1))\<bar> \<le> 1)"

subsection \<open>The implicit base curve as the spec words it\<close>

text \<open>
  The spec's reading of the base curve of a surface, for comparison with
  \<open>implicit_degamma_tf\<close>: BT.709 for the 4:2:0 chroma-subsampled formats, sRGB
  otherwise. The 4:2:0 formats are the four video formats of the enum, 8-bit and 10-bit.
\<close>

fun is_420_chroma_subsampled :: "surface_pixel_format \<Rightarrow> bool" where
  "is_420_chroma_subsampled SURFACE_PIXEL_FORMAT_VIDEO_420_YCbCr = True"
| "is_420_chroma_subsampled SURFACE_PIXEL_FORMAT_VIDEO_420_YCrCb = True"
| "is_420_chroma_subsampled SURFACE_PIXEL_FORMAT_VIDEO_420_10bpc_YCbCr = True"
| "is_420_chroma_subsampled SURFACE_PIXEL_FORMAT_VIDEO_420_10bpc_YCrCb = True"
| "is_420_chroma_subsampled (SURFACE_PIXEL_FORMAT_OTHER n) = False"

definition spec_implicit_degamma_tf :: "surface_pixel_format \<Rightarrow> dc_transfer_func_predefined" where
  "spec_implicit_degamma_tf fmt =
     (if is_420_chroma_subsampled fmt then TRANSFER_FUNCTION_BT709 else TRANSFER_FUNCTION_SRGB)"

subsection \<open>Sample inputs\<close>

text \<open>
  Concrete values on which the properties below are run: collaborators that always
  succeed and leave the transfer function as it is, a device with one 3D LUT, and a CRTC
  with no colour property set.
\<close>

definition sample_gamma :: dc_gamma where
  "sample_gamma =
     \<lparr>gamma_type = GAMMA_RGB_256, num_entries = 0,
      entries_red = [], entries_green = [], entries_blue = []\<rparr>"

definition sample_func :: dc_transfer_func where
  "sample_func =
     \<lparr>tf_type = TF_TYPE_PREDEFINED, tf = TRANSFER_FUNCTION_SRGB,
      sdr_ref_white_level = 0, tf_pts = []\<rparr>"

definition sample_3dlut :: dc_3dlut where
  "sample_3dlut =
     \<lparr>lut0 = [], lut1 = [], lut2 = [], lut3 = [],
      use_tetrahedral_9 = False, use_12bits = False, initialized = False\<rparr>"

definition sample_ext :: externals where
  "sample_ext =
     \<lparr>MAX_COLOR_LUT_ENTRIES = 4096,
      CHIP_RAVEN = 24,
      drm_color_lut_extract = (\<lambda>v p. v),
      dc_fixpt_from_int = (\<lambda>v. push_bit 32 (ucast v)),
      dc_fixpt_from_fraction = (\<lambda>n d. ucast n),
      dc_create_gamma = (\<lambda>u. Some sample_gamma),
      mod_color_calculate_regamma_params = (\<lambda>f g m r. (True, f)),
      mod_color_calculate_degamma_params = (\<lambda>f g m. (True, f)),
      mpc_3dlut_pool = Some (sample_3dlut, sample_func),
      mpc_3dlut_release = True\<rparr>"

definition sample_adev :: amdgpu_device where
  "sample_adev = \<lparr>asic_type = 30, num_3dluts = 1\<rparr>"

definition sample_stream :: dc_stream_state where
  "sample_stream =
     \<lparr>out_transfer_func = sample_func,
      lut3d_func = None,
      func_shaper = None,
      gamut_remap_matrix = \<lparr>matrix = replicate 12 0, enable_remap = False\<rparr>,
      csc_color_matrix = \<lparr>enable_adjustment = True\<rparr>\<rparr>"

definition sample_crtc :: dm_crtc_state where
  "sample_crtc =
     \<lparr>base = \<lparr>degamma_lut = None, ctm = None, gamma_lut = None, shaper_lut = None,
              lut3d = None, regamma_tf = DRM_TRANSFER_FUNCTION_DEFAULT\<rparr>,
      stream = sample_stream,
      cm_has_degamma = False,
      cm_is_degamma_srgb = False\<rparr>"

text \<open>
  Two LUTs of \<open>n\<close> entries: the grey ramp whose sample \<open>i\<close> is the truncated quotient
  \<open>i * 65535 div (n - 1)\<close>, and a LUT whose red channel differs from the other two.
\<close>

definition linear_ramp :: "nat \<Rightarrow> lut_blob" where
  "linear_ramp n = map (\<lambda>i. grey (of_nat (i * 65535 div (n - 1)))) [0..<n]"

definition red_lut :: "nat \<Rightarrow> lut_blob" where
  "red_lut n = replicate n \<lparr>red = 1, green = 0, blue = 0, reserved = 0\<rparr>"

text \<open>The 3 x 3 identity in S31.32: 1.0 is \<open>2 ^ 32\<close>.\<close>

definition identity_ctm :: drm_color_ctm where
  "identity_ctm = [2 ^ 32, 0, 0, 0, 2 ^ 32, 0, 0, 0, 2 ^ 32]"

section \<open>Properties\<close>

subsection \<open>The linearity check\<close>

lemma sint_of_nat_u32: "k < 2 ^ 31 \<Longrightarrow> sint (of_nat k :: u32) = int k"
  by (simp add: signed_of_nat signed_take_bit_int_eq_self)

lemma lut_at_of_nat:
  assumes "k < length lut" "length lut < 2 ^ 31"
  shows "lut_at lut (of_nat k) = Some (lut ! k)"
  using assms by (simp add: lut_at_def sint_of_nat_u32)

lemma expected_le:
  assumes "k < N" "1 < N"
  shows "(k * 65535 mod 2 ^ 32) div (N - 1) \<le> (65535::nat)"
proof (cases "N - 1 \<le> 65536")
  case True
  then have "k * 65535 \<le> (N - 1) * 65535" using assms by simp
  then have "k * 65535 mod 2 ^ 32 \<le> (N - 1) * 65535"
    by (meson le_trans mod_less_eq_dividend)
  then have "(k * 65535 mod 2 ^ 32) div (N - 1) \<le> ((N - 1) * 65535) div (N - 1)"
    by (rule div_le_mono)
  then show ?thesis using assms by simp
next
  case False
  then have big: "65537 \<le> N - 1" by simp
  have "k * 65535 mod 2 ^ 32 < (2 ^ 32 :: nat)" by simp
  then have "(k * 65535 mod 2 ^ 32) div (N - 1) \<le> (2 ^ 32 - 1) div (N - 1)"
    by (intro div_le_mono) simp
  also have "\<dots> \<le> (2 ^ 32 - 1) div 65537"
    using big by (intro div_le_mono2) simp_all
  also have "\<dots> = (65535 :: nat)" by simp
  finally show ?thesis .
qed

lemma delta_sint:
  assumes "unat (e :: u32) \<le> 65535"
  shows "sint (ucast (r :: u16) - e) = int (unat r) - int (unat e)"
proof -
  have r: "uint (ucast r :: u32) = uint r"
    by (rule uint_up_ucast) (simp add: is_up)
  have rb: "uint r < 65536" using uint_lt2p [of r] by simp
  have eb: "uint e \<le> 65535" unfolding uint_nat using assms by linarith
  have "ucast r - e = (word_of_int (uint r - uint e) :: u32)"
    unfolding r [symmetric] by (rule word_sub_wi)
  then have "sint (ucast r - e) = sint (word_of_int (uint r - uint e) :: u32)"
    by (rule arg_cong)
  also have "\<dots> = signed_take_bit 31 (uint r - uint e)"
    by (simp only: sint_sbintrunc') simp
  also have "\<dots> = uint r - uint e"
  proof (rule signed_take_bit_int_eq_self)
    have "- 2147483648 \<le> uint r - uint e" "uint r - uint e < 2147483648"
      using rb eb uint_ge_0 [of r] uint_ge_0 [of e] by linarith+
    then show "- (2 ^ 31) \<le> uint r - uint e" "uint r - uint e < 2 ^ 31"
      by simp_all
  qed
  finally show ?thesis by (simp only: uint_nat)
qed

lemma expected_unat:
  assumes "k < N" "1 < N" "N < 2 ^ 31"
  shows "unat ((of_nat k * MAX_DRM_LUT_VALUE) div (of_nat N - 1 :: u32)) =
         (k * 65535 mod 2 ^ 32) div (N - 1)"
proof -
  have "(of_nat N - 1 :: u32) = of_nat (N - 1)" using assms by simp
  moreover have "N - 1 < 2 ^ 32" using assms by simp
  ultimately have d: "unat (of_nat N - 1 :: u32) = N - 1" by (simp add: unat_of_nat)
  have "(of_nat k * MAX_DRM_LUT_VALUE :: u32) = of_nat (k * 65535)"
    by (simp add: MAX_DRM_LUT_VALUE_def)
  then have "unat (of_nat k * MAX_DRM_LUT_VALUE :: u32) = unat (of_nat (k * 65535) :: u32)"
    by (rule arg_cong)
  then have n: "unat (of_nat k * MAX_DRM_LUT_VALUE :: u32) = k * 65535 mod 2 ^ 32"
    by (simp only: unat_of_nat) simp
  show ?thesis by (simp only: unat_div d n)
qed

text \<open>One step of the loop, for a LUT whose size is the length of the list.\<close>

lemma is_lut_linear_from_step:
  assumes k: "k < length lut" and N: "1 < length lut" "length lut < 2 ^ 31"
  shows "is_lut_linear_from lut (of_nat (length lut)) (of_nat k) =
         (if lut_sample_linear lut k
          then is_lut_linear_from lut (of_nat (length lut)) (of_nat (Suc k))
          else Some False)"
proof -
  let ?N = "length lut"
  let ?e = "(of_nat k * MAX_DRM_LUT_VALUE) div (of_nat ?N - 1 :: u32)"
  have lt: "(of_nat k :: u32) < of_nat ?N"
    using k N by (simp add: word_less_nat_alt unat_of_nat)
  have nz: "(of_nat ?N - 1 :: u32) \<noteq> 0"
  proof
    assume "(of_nat ?N - 1 :: u32) = 0"
    then have "unat (of_nat ?N :: u32) = unat (1 :: u32)" by simp
    then show False using N by (simp add: unat_of_nat)
  qed
  have e: "unat ?e = (k * 65535 mod 2 ^ 32) div (?N - 1)"
    using k N by (rule expected_unat)
  then have "unat ?e \<le> 65535" using expected_le [OF k N(1)] by simp
  then have d: "sint (ucast (red (lut ! k)) - ?e) = int (unat (red (lut ! k))) - int (unat ?e)"
    by (rule delta_sint)
  have at: "lut_at lut (of_nat k) = Some (lut ! k)"
    using k N(2) by (rule lut_at_of_nat)
  have suc: "(of_nat k + 1 :: u32) = of_nat (Suc k)" by simp
  have unfold: "is_lut_linear_from lut (of_nat ?N) (of_nat k) =
      (if red (lut ! k) \<noteq> green (lut ! k) \<or> green (lut ! k) \<noteq> blue (lut ! k) then Some False
       else if int (unat (red (lut ! k))) - int (unat ?e) < - 1 \<or>
               1 < int (unat (red (lut ! k))) - int (unat ?e) then Some False
       else is_lut_linear_from lut (of_nat ?N) (of_nat (Suc k)))"
    apply (subst is_lut_linear_from.simps)
    apply (simp only: lt at nz d suc if_True if_False option.case Let_def)
    done
  show ?thesis
  proof (cases "lut_sample_linear lut k")
    case True
    then show ?thesis
      unfolding unfold e lut_sample_linear_def by (simp only: if_True) auto
  next
    case False
    then show ?thesis
      unfolding unfold e lut_sample_linear_def by (simp only: if_False) auto
  qed
qed

text \<open>The loop from \<open>k\<close> on checks the samples from \<open>k\<close> on.\<close>

lemma is_lut_linear_from_all:
  assumes N: "1 < length lut" "length lut < 2 ^ 31" and k: "k \<le> length lut"
  shows "is_lut_linear_from lut (of_nat (length lut)) (of_nat k) =
         Some (\<forall>i. k \<le> i \<and> i < length lut \<longrightarrow> lut_sample_linear lut i)"
  using k
proof (induction rule: inc_induct)
  case base
  have "\<not> (of_nat (length lut) :: u32) < of_nat (length lut)" by simp
  then show ?case by (subst is_lut_linear_from.simps) auto
next
  case (step n)
  have split: "\<And>i. n \<le> i \<longleftrightarrow> i = n \<or> Suc n \<le> i" by arith
  have "(\<forall>i. n \<le> i \<and> i < length lut \<longrightarrow> lut_sample_linear lut i) =
        (lut_sample_linear lut n \<and> (\<forall>i. Suc n \<le> i \<and> i < length lut \<longrightarrow> lut_sample_linear lut i))"
    unfolding split using step.hyps(2) by blast
  then show ?case
    using is_lut_linear_from_step [OF step.hyps(2) N] step.IH by auto
qed

text \<open>
  C2 (amended). For a curve of \<open>N\<close> samples, \<open>1 < N < 2 ^ 31\<close>, \<open>is_lut_linear\<close> returns
  true exactly when every sample \<open>i\<close> has equal red, green and blue and the common value
  is within 1 of the truncated quotient \<open>(i * 65535 mod 2 ^ 32) div (N - 1)\<close>: the
  division rounds down, it does not round to nearest.
\<close>

theorem is_lut_linear_truncated:
  assumes "1 < length lut" and "length lut < 2 ^ 31"
  shows "is_lut_linear lut (of_nat (length lut)) =
         Some (\<forall>i<length lut.
                 red (lut ! i) = green (lut ! i) \<and> green (lut ! i) = blue (lut ! i) \<and>
                 \<bar>int (unat (red (lut ! i))) -
                  int ((i * 65535 mod 2 ^ 32) div (length lut - 1))\<bar> \<le> 1)"
proof -
  have "is_lut_linear lut (of_nat (length lut)) =
        Some (\<forall>i. 0 \<le> i \<and> i < length lut \<longrightarrow> lut_sample_linear lut i)"
    unfolding is_lut_linear_def
    using is_lut_linear_from_all [OF assms, of 0] by simp
  then show ?thesis by (simp add: lut_sample_linear_def)
qed

text \<open>Up to 65538 samples the 32-bit product does not wrap.\<close>

lemma expected_no_wrap:
  assumes "i < N" "N \<le> 65538"
  shows "(i * 65535 mod 2 ^ 32) div (N - 1) = (i * 65535) div (N - 1 :: nat)"
proof -
  have "i * 65535 \<le> 65537 * (65535 :: nat)" using assms by simp
  then have "i * 65535 < 2 ^ 32" by simp
  then show ?thesis by simp
qed

theorem is_lut_linear_truncated_witness:
  "1 < length (map grey [0, 16382, 32767, 49151, 65535]) \<and>
   length (map grey [0, 16382, 32767, 49151, 65535]) < 2 ^ 31 \<and>
   is_lut_linear (map grey [0, 16382, 32767, 49151, 65535])
     (of_nat (length (map grey [0, 16382, 32767, 49151, 65535]))) =
   Some (\<forall>i<length (map grey [0, 16382, 32767, 49151, 65535]).
           red (map grey [0, 16382, 32767, 49151, 65535] ! i) =
             green (map grey [0, 16382, 32767, 49151, 65535] ! i) \<and>
           green (map grey [0, 16382, 32767, 49151, 65535] ! i) =
             blue (map grey [0, 16382, 32767, 49151, 65535] ! i) \<and>
           \<bar>int (unat (red (map grey [0, 16382, 32767, 49151, 65535] ! i))) -
            int ((i * 65535 mod 2 ^ 32) div
                 (length (map grey [0, 16382, 32767, 49151, 65535]) - 1))\<bar> \<le> 1)"
proof -
  let ?lut = "map grey [0, 16382, 32767, 49151, 65535]"
  have 1: "1 < length ?lut" and 2: "length ?lut < 2 ^ 31" by simp_all
  from 1 2 is_lut_linear_truncated [OF 1 2] show ?thesis by (intro conjI)
qed

text \<open>
  C2 as stated fails: with five samples the second expected value is
  \<open>65535 / 4 = 16383.75\<close>, which rounds to 16384, while the code compares with 16383; the
  grey ramp with 16382 in that place passes the code and is 2 away from the rounded
  value.
\<close>

theorem is_lut_linear_round_counterexample:
  "is_lut_linear (map grey [0, 16382, 32767, 49151, 65535]) 5 = Some True \<and>
   \<not> spec_is_lut_linear (map grey [0, 16382, 32767, 49151, 65535])"
proof
  let ?lut = "map grey [0, 16382, 32767, 49151, 65535]"
  show "is_lut_linear ?lut 5 = Some True"
    by (simp add: is_lut_linear_def is_lut_linear_from.simps grey_def lut_at_def
        MAX_DRM_LUT_VALUE_def)
  have e: "spec_expected 1 5 = 16384"
    by (simp add: spec_expected_def round_def)
  have len: "length ?lut = 5" by simp
  have v: "red (?lut ! 1) = 16382" by (simp add: grey_def)
  show "\<not> spec_is_lut_linear ?lut"
  proof
    assume "spec_is_lut_linear ?lut"
    then have "\<forall>i\<in>set [0..<5].
        red (?lut ! i) = green (?lut ! i) \<and> green (?lut ! i) = blue (?lut ! i) \<and>
        \<bar>int (unat (red (?lut ! i))) - spec_expected i 5\<bar> \<le> 1"
      unfolding spec_is_lut_linear_def list_all_iff len .
    moreover have "(1::nat) \<in> set [0..<5]" by simp
    ultimately have "\<bar>int (unat (red (?lut ! 1))) - spec_expected 1 5\<bar> \<le> 1"
      by blast
    then show False unfolding v e by simp
  qed
qed

subsection \<open>Size validation\<close>

lemma verify_lut_sizes_cases:
  "amdgpu_dm_verify_lut_sizes ext st = OK \<or> amdgpu_dm_verify_lut_sizes ext st = EINVAL"
  by (simp add: amdgpu_dm_verify_lut_sizes_def extract_blob_lut_def Let_def)

lemma verify_lut3d_size_cases:
  "amdgpu_dm_verify_lut3d_size ext adev st = OK \<or> amdgpu_dm_verify_lut3d_size ext adev st = EINVAL"
  by (simp add: amdgpu_dm_verify_lut3d_size_def extract_blob_lut_def Let_def)

text \<open>
  C6. \<open>amdgpu_dm_verify_lut_sizes\<close> returns \<open>EINVAL\<close> exactly when a degamma LUT is
  supplied whose size is not \<open>MAX_COLOR_LUT_ENTRIES\<close>, or a gamma LUT is supplied whose
  size is neither \<open>MAX_COLOR_LUT_ENTRIES\<close> nor 256; otherwise it returns \<open>OK\<close>, so
  absent LUTs pass. When it fails, the orchestrator returns \<open>EINVAL\<close> with the CRTC
  state as it was.
\<close>

theorem verify_lut_sizes_invalid:
  "(amdgpu_dm_verify_lut_sizes ext (base crtc) = EINVAL \<longleftrightarrow>
      (\<exists>l. degamma_lut (base crtc) = Some l \<and>
           (of_nat (length l) :: u32) \<noteq> MAX_COLOR_LUT_ENTRIES ext) \<or>
      (\<exists>l. gamma_lut (base crtc) = Some l \<and>
           (of_nat (length l) :: u32) \<noteq> MAX_COLOR_LUT_ENTRIES ext \<and>
           (of_nat (length l) :: u32) \<noteq> 256)) \<and>
   (amdgpu_dm_verify_lut_sizes ext (base crtc) \<noteq> EINVAL \<longrightarrow>
      amdgpu_dm_verify_lut_sizes ext (base crtc) = OK) \<and>
   (amdgpu_dm_verify_lut_sizes ext (base crtc) = EINVAL \<longrightarrow>
      amdgpu_dm_update_crtc_color_mgmt ext adev crtc = Some (EINVAL, crtc))"
proof (intro conjI)
  show "amdgpu_dm_verify_lut_sizes ext (base crtc) = EINVAL \<longleftrightarrow>
      (\<exists>l. degamma_lut (base crtc) = Some l \<and>
           (of_nat (length l) :: u32) \<noteq> MAX_COLOR_LUT_ENTRIES ext) \<or>
      (\<exists>l. gamma_lut (base crtc) = Some l \<and>
           (of_nat (length l) :: u32) \<noteq> MAX_COLOR_LUT_ENTRIES ext \<and>
           (of_nat (length l) :: u32) \<noteq> 256)"
    by (auto simp: amdgpu_dm_verify_lut_sizes_def extract_blob_lut_def Let_def
        MAX_COLOR_LEGACY_LUT_ENTRIES_def split: option.splits)
  show "amdgpu_dm_verify_lut_sizes ext (base crtc) \<noteq> EINVAL \<longrightarrow>
      amdgpu_dm_verify_lut_sizes ext (base crtc) = OK"
    using verify_lut_sizes_cases [of ext "base crtc"] by blast
  show "amdgpu_dm_verify_lut_sizes ext (base crtc) = EINVAL \<longrightarrow>
      amdgpu_dm_update_crtc_color_mgmt ext adev crtc = Some (EINVAL, crtc)"
    by (simp add: amdgpu_dm_update_crtc_color_mgmt_def)
qed

theorem verify_lut_sizes_invalid_witness:
  "amdgpu_dm_verify_lut_sizes sample_ext
     (base (sample_crtc\<lparr>base := (base sample_crtc)\<lparr>degamma_lut := Some [grey 0]\<rparr>\<rparr>)) = EINVAL \<and>
   amdgpu_dm_update_crtc_color_mgmt sample_ext sample_adev
     (sample_crtc\<lparr>base := (base sample_crtc)\<lparr>degamma_lut := Some [grey 0]\<rparr>\<rparr>) =
   Some (EINVAL, sample_crtc\<lparr>base := (base sample_crtc)\<lparr>degamma_lut := Some [grey 0]\<rparr>\<rparr>)"
proof -
  let ?crtc = "sample_crtc\<lparr>base := (base sample_crtc)\<lparr>degamma_lut := Some [grey 0]\<rparr>\<rparr>"
  note inst = verify_lut_sizes_invalid [of sample_ext ?crtc sample_adev]
  have "\<exists>l. degamma_lut (base ?crtc) = Some l \<and>
            (of_nat (length l) :: u32) \<noteq> MAX_COLOR_LUT_ENTRIES sample_ext"
    by (simp add: sample_ext_def)
  then have "amdgpu_dm_verify_lut_sizes sample_ext (base ?crtc) = EINVAL"
    using inst by blast
  then show ?thesis using inst by blast
qed

text \<open>
  C7. \<open>amdgpu_dm_verify_lut3d_size\<close> takes the expected sizes from the capability (0
  without a 3D LUT, else \<open>MAX_COLOR_LUT_ENTRIES\<close> for the shaper and
  \<open>MAX_COLOR_3DLUT_ENTRIES\<close> for the 3D LUT) and returns \<open>EINVAL\<close> exactly when a
  supplied blob has another size. A 3D LUT with at least one entry on a device with no
  3D LUT makes the orchestrator return \<open>EINVAL\<close> with the CRTC state, and so the two
  pointers of the stream, as they were.
\<close>

theorem verify_lut3d_size_invalid:
  "(amdgpu_dm_verify_lut3d_size ext adev (base crtc) = EINVAL \<longleftrightarrow>
      (\<exists>l. shaper_lut (base crtc) = Some l \<and>
           (of_nat (length l) :: u32) \<noteq>
             (if num_3dluts adev = 0 then 0 else MAX_COLOR_LUT_ENTRIES ext)) \<or>
      (\<exists>l. lut3d (base crtc) = Some l \<and>
           (of_nat (length l) :: u32) \<noteq>
             (if num_3dluts adev = 0 then 0 else MAX_COLOR_3DLUT_ENTRIES))) \<and>
   (amdgpu_dm_verify_lut3d_size ext adev (base crtc) \<noteq> EINVAL \<longrightarrow>
      amdgpu_dm_verify_lut3d_size ext adev (base crtc) = OK) \<and>
   (num_3dluts adev = 0 \<and>
    (\<exists>l. lut3d (base crtc) = Some l \<and> (of_nat (length l) :: u32) \<noteq> 0) \<longrightarrow>
      amdgpu_dm_update_crtc_color_mgmt ext adev crtc = Some (EINVAL, crtc))"
proof (intro conjI)
  show iff: "amdgpu_dm_verify_lut3d_size ext adev (base crtc) = EINVAL \<longleftrightarrow>
      (\<exists>l. shaper_lut (base crtc) = Some l \<and>
           (of_nat (length l) :: u32) \<noteq>
             (if num_3dluts adev = 0 then 0 else MAX_COLOR_LUT_ENTRIES ext)) \<or>
      (\<exists>l. lut3d (base crtc) = Some l \<and>
           (of_nat (length l) :: u32) \<noteq>
             (if num_3dluts adev = 0 then 0 else MAX_COLOR_3DLUT_ENTRIES))"
    by (auto simp: amdgpu_dm_verify_lut3d_size_def amdgpu_dm_get_lut3d_size_def
        extract_blob_lut_def Let_def split: option.splits)
  show "amdgpu_dm_verify_lut3d_size ext adev (base crtc) \<noteq> EINVAL \<longrightarrow>
      amdgpu_dm_verify_lut3d_size ext adev (base crtc) = OK"
    using verify_lut3d_size_cases [of ext adev "base crtc"] by blast
  show "num_3dluts adev = 0 \<and>
    (\<exists>l. lut3d (base crtc) = Some l \<and> (of_nat (length l) :: u32) \<noteq> 0) \<longrightarrow>
      amdgpu_dm_update_crtc_color_mgmt ext adev crtc = Some (EINVAL, crtc)"
  proof
    assume a: "num_3dluts adev = 0 \<and>
      (\<exists>l. lut3d (base crtc) = Some l \<and> (of_nat (length l) :: u32) \<noteq> 0)"
    then have 3: "amdgpu_dm_verify_lut3d_size ext adev (base crtc) = EINVAL"
      unfolding iff by auto
    show "amdgpu_dm_update_crtc_color_mgmt ext adev crtc = Some (EINVAL, crtc)"
      using verify_lut_sizes_cases [of ext "base crtc"] 3
      by (auto simp: amdgpu_dm_update_crtc_color_mgmt_def)
  qed
qed

theorem verify_lut3d_size_invalid_witness:
  "amdgpu_dm_update_crtc_color_mgmt sample_ext (sample_adev\<lparr>num_3dluts := 0\<rparr>)
     (sample_crtc\<lparr>base := (base sample_crtc)\<lparr>lut3d := Some [grey 0]\<rparr>\<rparr>) =
   Some (EINVAL, sample_crtc\<lparr>base := (base sample_crtc)\<lparr>lut3d := Some [grey 0]\<rparr>\<rparr>)"
proof -
  let ?crtc = "sample_crtc\<lparr>base := (base sample_crtc)\<lparr>lut3d := Some [grey 0]\<rparr>\<rparr>"
  let ?adev = "sample_adev\<lparr>num_3dluts := 0\<rparr>"
  have "num_3dluts ?adev = 0 \<and>
        (\<exists>l. lut3d (base ?crtc) = Some l \<and> (of_nat (length l) :: u32) \<noteq> 0)"
    by simp
  then show ?thesis
    using verify_lut3d_size_invalid [of sample_ext ?adev ?crtc] by blast
qed

subsection \<open>CTM conversion\<close>

lemma fold_update_length:
  "length (fold (\<lambda>i m. m[i := g i]) xs m) = length m"
  by (induction xs arbitrary: m) simp_all

lemma fold_update_nth:
  assumes "n \<le> length m" "i < length m"
  shows "fold (\<lambda>i m. m[i := g i]) [0..<n] m ! i = (if i < n then g i else m ! i)"
  using assms
proof (induction n)
  case 0
  then show ?case by simp
next
  case (Suc n)
  then show ?case
    by (auto simp: fold_update_length nth_list_update less_Suc_eq)
qed

lemma drm_ctm_to_dc_matrix_fold:
  "drm_ctm_to_dc_matrix c m =
   fold (\<lambda>i m. m[i := (if i mod 4 = 3 then dc_fixpt_zero
                         else dc_fixpt_from_s3132 (c ! (i - (i div 4))))]) [0..<12] m"
proof -
  have "(\<lambda>i m. if i mod 4 = 3 then m[i := dc_fixpt_zero]
                else m[i := dc_fixpt_from_s3132 (c ! (i - (i div 4)))]) =
        (\<lambda>i m. m[i := (if i mod 4 = 3 then dc_fixpt_zero
                         else dc_fixpt_from_s3132 (c ! (i - (i div 4))))])"
    by (intro ext) simp
  then show ?thesis unfolding drm_ctm_to_dc_matrix_def by simp
qed

lemma s3132_one: "dc_fixpt_from_s3132 (2 ^ 32) = 2 ^ 32"
  by (simp add: dc_fixpt_from_s3132_def bit_exp_iff)

lemma s3132_one_num: "dc_fixpt_from_s3132 4294967296 = 4294967296"
  using s3132_one by simp

lemma s3132_zero: "dc_fixpt_from_s3132 0 = 0"
  by (simp add: dc_fixpt_from_s3132_def)

lemma upt12: "[0..<12] = [0,1,2,3,4,5,6,7,8,9,10,11::nat]"
  by (simp add: upt_rec)

lemma identity_conv:
  "map (\<lambda>i. if i mod 4 = 3 then dc_fixpt_zero
             else dc_fixpt_from_s3132 (identity_ctm ! (i - (i div 4)))) [0..<12] =
   [2 ^ 32, 0, 0, 0, 0, 2 ^ 32, 0, 0, 0, 0, 2 ^ 32, 0]"
  unfolding upt12 by (simp add: identity_ctm_def s3132_one_num s3132_zero dc_fixpt_zero_def)

lemma magnitude_take_bit: "(x :: u64) AND NOT (push_bit 63 1) = take_bit 63 x"
proof (rule bit_eqI)
  fix n
  assume "possible_bit TYPE(u64) n"
  then have n: "n < 64" by (simp add: possible_bit_word)
  have "bit (push_bit 63 (1 :: u64)) n \<longleftrightarrow> n = 63"
    using n by (simp only: bit_push_bit_iff bit_1_iff possible_bit_word) auto
  then show "bit (x AND NOT (push_bit 63 1)) n \<longleftrightarrow> bit (take_bit 63 x) n"
    using n by (simp only: bit_and_iff bit_not_iff bit_take_bit_iff possible_bit_word) auto
qed

lemma uint_take_bit_63: "uint (take_bit 63 (x::u64)) < 2 ^ 63"
  using take_bit_int_less_exp [of 63 "uint x"] by (simp add: unsigned_take_bit_eq)

text \<open>
  The conversion read as a signed number: the magnitude (the low 63 bits), negated
  when bit 63 is set.
\<close>

lemma dc_fixpt_from_s3132_sint:
  "sint (dc_fixpt_from_s3132 x) =
     (if bit x 63 then - uint (take_bit 63 x) else uint (take_bit 63 x))"
proof (cases "bit x 63")
  case True
  let ?m = "take_bit 63 x :: u64"
  have "- ?m = word_of_int (- uint ?m)" by simp
  then have "sint (- ?m) = sint (word_of_int (- uint ?m) :: u64)" by (rule arg_cong)
  also have "\<dots> = signed_take_bit 63 (- uint ?m)"
    by (simp only: sint_sbintrunc') simp
  also have "\<dots> = - uint ?m"
  proof (rule signed_take_bit_int_eq_self)
    show "- (2 ^ 63) \<le> - uint ?m" using uint_take_bit_63 [of x] by simp
    have "(0::int) < 2 ^ 63" by simp
    then show "- uint ?m < 2 ^ 63" using uint_ge_0 [of ?m] by linarith
  qed
  finally show ?thesis using True
    by (simp only: dc_fixpt_from_s3132_def magnitude_take_bit if_True)
next
  case False
  have tb: "take_bit 63 x = x"
  proof (rule bit_eqI)
    fix n
    assume "possible_bit TYPE(u64) n"
    then have "n < 64" by (simp add: possible_bit_word)
    then show "bit (take_bit 63 x) n \<longleftrightarrow> bit x n"
      using False by (cases "n = 63") (auto simp: bit_take_bit_iff)
  qed
  have "uint x < 2 ^ 63" using uint_take_bit_63 [of x] unfolding tb .
  moreover have "(0::int) < 2 ^ 63" by simp
  then have "- (2 ^ 63) \<le> uint x"
    using uint_ge_0 [of x] by linarith
  ultimately have "signed_take_bit 63 (uint x) = uint x"
    by (intro signed_take_bit_int_eq_self)
  then have "sint x = uint x" by (simp add: sint_uint)
  then show ?thesis using False tb by (simp add: dc_fixpt_from_s3132_def)
qed

text \<open>
  C8. For a 3 x 4 target array, \<open>drm_ctm_to_dc_matrix\<close> leaves 12 entries; entry \<open>i\<close>
  is zero when \<open>i mod 4 = 3\<close> and is the conversion of source coefficient
  \<open>i - i div 4\<close> otherwise; the identity matrix becomes the homogeneous identity with a
  zero fourth column.
\<close>

theorem drm_ctm_to_dc_matrix_layout:
  assumes "length m = 12"
  shows "length (drm_ctm_to_dc_matrix c m) = 12 \<and>
         (\<forall>i<12. drm_ctm_to_dc_matrix c m ! i =
                   (if i mod 4 = 3 then 0 else dc_fixpt_from_s3132 (c ! (i - i div 4)))) \<and>
         drm_ctm_to_dc_matrix identity_ctm m =
           [2 ^ 32, 0, 0, 0, 0, 2 ^ 32, 0, 0, 0, 0, 2 ^ 32, 0]"
proof (intro conjI)
  show len: "length (drm_ctm_to_dc_matrix c m) = 12" for c
    unfolding drm_ctm_to_dc_matrix_fold using assms by (simp add: fold_update_length)
  show nth: "\<forall>i<12. drm_ctm_to_dc_matrix c m ! i =
                   (if i mod 4 = 3 then 0 else dc_fixpt_from_s3132 (c ! (i - i div 4)))" for c
    unfolding drm_ctm_to_dc_matrix_fold using assms
    by (simp add: fold_update_nth dc_fixpt_zero_def)
  have "drm_ctm_to_dc_matrix identity_ctm m =
        map (\<lambda>i. if i mod 4 = 3 then dc_fixpt_zero
                  else dc_fixpt_from_s3132 (identity_ctm ! (i - (i div 4)))) [0..<12]"
    by (rule nth_equalityI) (simp_all add: len nth dc_fixpt_zero_def)
  then show "drm_ctm_to_dc_matrix identity_ctm m =
           [2 ^ 32, 0, 0, 0, 0, 2 ^ 32, 0, 0, 0, 0, 2 ^ 32, 0]"
    by (simp only: identity_conv)
qed


theorem drm_ctm_to_dc_matrix_layout_witness:
  "length (replicate 12 (0 :: fixed31_32)) = 12 \<and>
   drm_ctm_to_dc_matrix identity_ctm (replicate 12 0) =
     [2 ^ 32, 0, 0, 0, 0, 2 ^ 32, 0, 0, 0, 0, 2 ^ 32, 0]"
proof -
  have len: "length (replicate 12 (0 :: fixed31_32)) = 12" by simp
  from len drm_ctm_to_dc_matrix_layout [OF len, of identity_ctm] show ?thesis by blast
qed

subsection \<open>The output orchestrator, step by step\<close>

lemma extract_blob_lut_simps [simp]:
  "extract_blob_lut None = (None, 0)"
  "extract_blob_lut (Some l) = (Some l, of_nat (length l))"
  by (simp_all add: extract_blob_lut_def)

lemma fst_extract_blob_lut: "fst (extract_blob_lut b) = b"
  by (simp add: extract_blob_lut_def)

text \<open>The run of a commit that passed both size checks.\<close>

lemma update_crtc_valid:
  assumes "amdgpu_dm_verify_lut_sizes ext (base crtc) = OK"
    and "amdgpu_dm_verify_lut3d_size ext adev (base crtc) = OK"
    and "amdgpu_dm_update_crtc_color_mgmt ext adev crtc = Some (r, crtc')"
  shows "\<exists>has_degamma has_regamma crtc1.
    lut_is_nonlinear (degamma_lut (base crtc))
       (snd (extract_blob_lut (degamma_lut (base crtc)))) = Some has_degamma \<and>
    lut_is_nonlinear (gamma_lut (base crtc))
       (snd (extract_blob_lut (gamma_lut (base crtc)))) = Some has_regamma \<and>
    crtc_setup_regamma ext (crtc\<lparr>cm_has_degamma := False, cm_is_degamma_srgb := False\<rparr>)
       (asic_type adev \<le> CHIP_RAVEN ext) has_regamma
       (snd (extract_blob_lut (gamma_lut (base crtc))) = MAX_COLOR_LEGACY_LUT_ENTRIES) =
     Some (r, crtc1) \<and>
    crtc' = (if r \<noteq> OK then crtc1
             else crtc_setup_ctm (crtc1\<lparr>cm_has_degamma := has_degamma\<rparr>))"
  using assms
  by (auto simp: amdgpu_dm_update_crtc_color_mgmt_def Let_def extract_blob_lut_def
      split: option.splits if_splits prod.splits)

lemma update_crtc_cases:
  assumes "amdgpu_dm_update_crtc_color_mgmt ext adev crtc = Some (r, crtc')"
  shows "(r = EINVAL \<and> crtc' = crtc \<and>
          (amdgpu_dm_verify_lut_sizes ext (base crtc) = EINVAL \<or>
           amdgpu_dm_verify_lut3d_size ext adev (base crtc) = EINVAL)) \<or>
         (amdgpu_dm_verify_lut_sizes ext (base crtc) = OK \<and>
          amdgpu_dm_verify_lut3d_size ext adev (base crtc) = OK)"
  using assms verify_lut_sizes_cases [of ext "base crtc"]
    verify_lut3d_size_cases [of ext adev "base crtc"]
  by (auto simp: amdgpu_dm_update_crtc_color_mgmt_def)

lemma shaper_lut3d_frame:
  assumes "amdgpu_dm_atomic_shaper_lut3d ext s sl ss l3 l3s = Some (r, s')"
  shows "out_transfer_func s' = out_transfer_func s \<and>
         gamut_remap_matrix s' = gamut_remap_matrix s \<and>
         csc_color_matrix s' = csc_color_matrix s"
  using assms
  by (auto simp: amdgpu_dm_atomic_shaper_lut3d_def amdgpu_dm_atomic_lut3d_def
      amdgpu_dm_atomic_shaper_lut_def Let_def
      split: option.splits if_splits prod.splits)

lemma set_atomic_regamma_frame:
  assumes "amdgpu_dm_set_atomic_regamma ext s l sz hr t = Some (r, s')"
  shows "lut3d_func s' = lut3d_func s \<and> func_shaper s' = func_shaper s \<and>
         gamut_remap_matrix s' = gamut_remap_matrix s \<and>
         csc_color_matrix s' = csc_color_matrix s"
  using assms
  by (auto simp: amdgpu_dm_set_atomic_regamma_def split: option.splits if_splits prod.splits)

lemma crtc_setup_regamma_base:
  assumes "crtc_setup_regamma ext crtc hr hg il = Some (r, crtc1)"
  shows "base crtc1 = base crtc"
  using assms
  by (auto simp: crtc_setup_regamma_def Let_def split: option.splits if_splits prod.splits)

lemma crtc_setup_ctm_flags:
  "\<not> enable_adjustment (csc_color_matrix (stream (crtc_setup_ctm c))) \<and>
   enable_remap (gamut_remap_matrix (stream (crtc_setup_ctm c))) = (ctm (base c) \<noteq> None)"
  by (simp add: crtc_setup_ctm_def split: option.splits)

lemma crtc_setup_ctm_frame:
  "out_transfer_func (stream (crtc_setup_ctm c)) = out_transfer_func (stream c) \<and>
   lut3d_func (stream (crtc_setup_ctm c)) = lut3d_func (stream c) \<and>
   func_shaper (stream (crtc_setup_ctm c)) = func_shaper (stream c) \<and>
   cm_is_degamma_srgb (crtc_setup_ctm c) = cm_is_degamma_srgb c \<and>
   cm_has_degamma (crtc_setup_ctm c) = cm_has_degamma c \<and>
   base (crtc_setup_ctm c) = base c"
  by (simp add: crtc_setup_ctm_def split: option.splits)

lemma set_legacy_tf_ret:
  "set_legacy_tf ext f l sz hr = Some (r, f') \<Longrightarrow> r = OK \<or> r = ENOMEM"
  by (auto simp: set_legacy_tf_def Let_def split: option.splits prod.splits if_splits)

lemma crtc_setup_regamma_legacy:
  assumes "crtc_setup_regamma ext c hr hg True = Some (r, c1)"
  shows "cm_is_degamma_srgb c1 \<and>
         set_legacy_tf ext
           ((out_transfer_func (stream c))
              \<lparr>tf_type := TF_TYPE_DISTRIBUTED_POINTS, tf := TRANSFER_FUNCTION_SRGB\<rparr>)
           (gamma_lut (base c)) (snd (extract_blob_lut (gamma_lut (base c)))) hr =
         Some (r, out_transfer_func (stream c1))"
  using assms
  by (auto simp: crtc_setup_regamma_def Let_def extract_blob_lut_def
      split: option.splits prod.splits)

lemma set_atomic_regamma_result:
  assumes "amdgpu_dm_set_atomic_regamma ext s l sz hr t = Some (r, s')"
  shows "if sz = 0 \<and> t = TRANSFER_FUNCTION_LINEAR
         then r = OK \<and> out_transfer_func s' =
                (out_transfer_func s)\<lparr>tf_type := TF_TYPE_BYPASS, tf := TRANSFER_FUNCTION_LINEAR\<rparr>
         else set_output_tf ext
                ((out_transfer_func s)
                   \<lparr>tf_type := TF_TYPE_DISTRIBUTED_POINTS, tf := t, sdr_ref_white_level := 80\<rparr>)
                l sz hr = Some (r, out_transfer_func s')"
  using assms
  by (auto simp: amdgpu_dm_set_atomic_regamma_def split: option.splits if_splits prod.splits)

lemma crtc_setup_regamma_atomic:
  assumes "crtc_setup_regamma ext c hr hg False = Some (r, c1)"
  shows "\<exists>r1 stream1.
           (if lut3d (base c) \<noteq> None
            then amdgpu_dm_atomic_shaper_lut3d ext (stream c) (shaper_lut (base c))
                   (snd (extract_blob_lut (shaper_lut (base c))))
                   (lut3d (base c)) (snd (extract_blob_lut (lut3d (base c))))
            else amdgpu_dm_atomic_shaper_lut3d ext (stream c) None 0 None 0) =
           Some (r1, stream1) \<and>
           (if r1 \<noteq> OK then r = r1 \<and> c1 = c\<lparr>stream := stream1\<rparr>
            else \<exists>stream2.
                   amdgpu_dm_set_atomic_regamma ext stream1 (gamma_lut (base c))
                     (if hg then snd (extract_blob_lut (gamma_lut (base c))) else 0) hr
                     (drm_tf_to_dc_tf (regamma_tf (base c))) = Some (r, stream2) \<and>
                   c1 = c\<lparr>stream := stream2\<rparr>)"
  using assms
  by (auto simp: crtc_setup_regamma_def Let_def extract_blob_lut_def
      split: option.splits prod.splits if_splits)

lemma lut_is_nonlinear_eff:
  assumes "lut_is_nonlinear lut (snd (extract_blob_lut lut)) = Some hg"
  shows "(if hg then snd (extract_blob_lut lut) else 0) =
         (case lut of None \<Rightarrow> 0
          | Some l \<Rightarrow> if is_lut_linear l (of_nat (length l)) = Some False
                      then of_nat (length l) else 0)"
  using assms by (auto simp: lut_is_nonlinear_def split: option.splits)

lemma shaper_lut3d_no_acquire:
  assumes "amdgpu_dm_atomic_shaper_lut3d ext s sl ss l3 l3s = Some (r, s')"
    and "ss = 0 \<or> l3s = 0"
    and "(lut3d_func s = None) = (func_shaper s = None)"
  shows "(r = OK \<longrightarrow> lut3d_func s' = None \<and> func_shaper s' = None) \<and>
         (r \<noteq> OK \<longrightarrow> s' = s)"
  using assms
  by (auto simp: amdgpu_dm_atomic_shaper_lut3d_def dc_acquire_release_mpc_3dlut_for_ctx_def
      Let_def split: option.splits if_splits prod.splits)

lemma shaper_lut3d_pair:
  assumes "amdgpu_dm_atomic_shaper_lut3d ext s sl ss l3 l3s = Some (r, s')"
    and "(lut3d_func s = None) = (func_shaper s = None)"
  shows "(lut3d_func s' = None) = (func_shaper s' = None)"
  using assms
  by (auto simp: amdgpu_dm_atomic_shaper_lut3d_def dc_acquire_release_mpc_3dlut_for_ctx_def
      amdgpu_dm_atomic_lut3d_def amdgpu_dm_atomic_shaper_lut_def
      Let_def split: option.splits if_splits prod.splits)

lemma crtc_setup_regamma_pair:
  assumes "crtc_setup_regamma ext c hr hg il = Some (r, c1)"
    and "(lut3d_func (stream c) = None) = (func_shaper (stream c) = None)"
  shows "(lut3d_func (stream c1) = None) = (func_shaper (stream c1) = None)"
proof (cases il)
  case True
  then show ?thesis using assms
    by (auto simp: crtc_setup_regamma_def Let_def split: option.splits prod.splits)
next
  case False
  with assms(1) have a: "crtc_setup_regamma ext c hr hg False = Some (r, c1)" by simp
  from crtc_setup_regamma_atomic [OF a] obtain r1 stream1 where
    sh: "(if lut3d (base c) \<noteq> None
            then amdgpu_dm_atomic_shaper_lut3d ext (stream c) (shaper_lut (base c))
                   (snd (extract_blob_lut (shaper_lut (base c))))
                   (lut3d (base c)) (snd (extract_blob_lut (lut3d (base c))))
            else amdgpu_dm_atomic_shaper_lut3d ext (stream c) None 0 None 0) =
           Some (r1, stream1)"
    and rest: "if r1 \<noteq> OK then r = r1 \<and> c1 = c\<lparr>stream := stream1\<rparr>
            else \<exists>stream2.
                   amdgpu_dm_set_atomic_regamma ext stream1 (gamma_lut (base c))
                     (if hg then snd (extract_blob_lut (gamma_lut (base c))) else 0) hr
                     (drm_tf_to_dc_tf (regamma_tf (base c))) = Some (r, stream2) \<and>
                   c1 = c\<lparr>stream := stream2\<rparr>"
    by blast
  have p1: "(lut3d_func stream1 = None) = (func_shaper stream1 = None)"
    using sh assms(2) shaper_lut3d_pair by (auto split: if_splits)
  show ?thesis
  proof (cases "r1 = OK")
    case True
    with rest obtain stream2 where
      rg: "amdgpu_dm_set_atomic_regamma ext stream1 (gamma_lut (base c))
             (if hg then snd (extract_blob_lut (gamma_lut (base c))) else 0) hr
             (drm_tf_to_dc_tf (regamma_tf (base c))) = Some (r, stream2)"
      and c1: "c1 = c\<lparr>stream := stream2\<rparr>" by auto
    from set_atomic_regamma_frame [OF rg] p1 show ?thesis unfolding c1 by simp
  next
    case False
    with rest p1 show ?thesis by simp
  qed
qed

lemma crtc_setup_regamma_no_acquire:
  assumes "crtc_setup_regamma ext c hr hg False = Some (OK, c1)"
    and "lut3d (base c) = None \<or> shaper_lut (base c) = None"
    and "(lut3d_func (stream c) = None) = (func_shaper (stream c) = None)"
  shows "lut3d_func (stream c1) = None \<and> func_shaper (stream c1) = None"
proof -
  from crtc_setup_regamma_atomic [OF assms(1)] obtain r1 stream1 where
    sh: "(if lut3d (base c) \<noteq> None
            then amdgpu_dm_atomic_shaper_lut3d ext (stream c) (shaper_lut (base c))
                   (snd (extract_blob_lut (shaper_lut (base c))))
                   (lut3d (base c)) (snd (extract_blob_lut (lut3d (base c))))
            else amdgpu_dm_atomic_shaper_lut3d ext (stream c) None 0 None 0) =
           Some (r1, stream1)"
    and rest: "if r1 \<noteq> OK then OK = r1 \<and> c1 = c\<lparr>stream := stream1\<rparr>
            else \<exists>stream2.
                   amdgpu_dm_set_atomic_regamma ext stream1 (gamma_lut (base c))
                     (if hg then snd (extract_blob_lut (gamma_lut (base c))) else 0) hr
                     (drm_tf_to_dc_tf (regamma_tf (base c))) = Some (OK, stream2) \<and>
                   c1 = c\<lparr>stream := stream2\<rparr>"
    by blast
  from rest have r1: "r1 = OK" by (auto split: if_splits)
  with rest obtain stream2 where
    rg: "amdgpu_dm_set_atomic_regamma ext stream1 (gamma_lut (base c))
           (if hg then snd (extract_blob_lut (gamma_lut (base c))) else 0) hr
           (drm_tf_to_dc_tf (regamma_tf (base c))) = Some (OK, stream2)"
    and c1: "c1 = c\<lparr>stream := stream2\<rparr>" by auto
  have "lut3d_func stream1 = None \<and> func_shaper stream1 = None"
  proof (cases "lut3d (base c)")
    case None
    with sh have "amdgpu_dm_atomic_shaper_lut3d ext (stream c) None 0 None 0 = Some (r1, stream1)"
      by simp
    from shaper_lut3d_no_acquire [OF this _ assms(3)] r1 show ?thesis by simp
  next
    case (Some l)
    with assms(2) have n: "shaper_lut (base c) = None" by simp
    with sh Some have "amdgpu_dm_atomic_shaper_lut3d ext (stream c) None 0
        (lut3d (base c)) (snd (extract_blob_lut (lut3d (base c)))) = Some (r1, stream1)"
      by simp
    from shaper_lut3d_no_acquire [OF this _ assms(3)] r1 show ?thesis by simp
  qed
  with set_atomic_regamma_frame [OF rg] show ?thesis unfolding c1 by simp
qed

subsection \<open>Runs that reach a return\<close>

lemma length_of_size:
  assumes "(of_nat (length l) :: u32) = w" "length l < 2 ^ 31"
  shows "length l = unat w"
proof -
  have "length l < 2 ^ 32" using assms(2) by simp
  then have "unat (of_nat (length l) :: u32) = length l" by (simp add: unat_of_nat)
  then show ?thesis using assms(1) by simp
qed

lemma is_lut_linear_defined:
  assumes "length l < 2 ^ 31" "length l \<noteq> 1"
  shows "\<exists>b. is_lut_linear l (of_nat (length l)) = Some b"
proof (cases "length l = 0")
  case True
  then show ?thesis
    unfolding is_lut_linear_def by (subst is_lut_linear_from.simps) auto
next
  case False
  with assms have "1 < length l" by linarith
  from is_lut_linear_from_all [OF this assms(1), of 0] show ?thesis
    unfolding is_lut_linear_def by simp
qed

lemma lut_is_nonlinear_defined:
  assumes "\<forall>l. lut = Some l \<longrightarrow> length l < 2 ^ 31 \<and> length l \<noteq> 1"
  shows "\<exists>b. lut_is_nonlinear lut (snd (extract_blob_lut lut)) = Some b"
proof (cases lut)
  case None
  then show ?thesis by (auto simp: lut_is_nonlinear_def)
next
  case (Some l)
  with assms is_lut_linear_defined [of l] obtain b where
    "is_lut_linear l (of_nat (length l)) = Some b" by auto
  with Some show ?thesis by (simp add: lut_is_nonlinear_def)
qed

lemma drm_lut_to_dc_gamma_defined:
  assumes "length l = unat (if is_legacy then MAX_COLOR_LEGACY_LUT_ENTRIES
                            else MAX_COLOR_LUT_ENTRIES ext)"
  shows "\<exists>g'. drm_lut_to_dc_gamma ext (Some l) g is_legacy = Some g'"
  using assms by (simp add: drm_lut_to_dc_gamma_def lut_prefix_def Let_def)

lemma set_legacy_tf_defined:
  assumes "length l = unat MAX_COLOR_LEGACY_LUT_ENTRIES"
  shows "\<exists>r f. set_legacy_tf ext func (Some l) sz hr = Some (r, f)"
proof (cases "dc_create_gamma ext In_set_legacy_tf")
  case None
  then show ?thesis by (simp add: set_legacy_tf_def)
next
  case (Some g)
  from drm_lut_to_dc_gamma_defined [of l True ext] assms obtain g' where
    "drm_lut_to_dc_gamma ext (Some l) (g\<lparr>gamma_type := GAMMA_RGB_256, num_entries := sz\<rparr>) True = Some g'"
    by fastforce
  with Some show ?thesis by (simp add: set_legacy_tf_def split_beta)
qed

lemma set_output_tf_defined:
  assumes "sz = 0 \<or> (\<exists>l. lut = Some l \<and> length l = unat (MAX_COLOR_LUT_ENTRIES ext))"
  shows "\<exists>r f. set_output_tf ext func lut sz hr = Some (r, f)"
proof (cases "sz = 0")
  case True
  then show ?thesis
    by (simp add: set_output_tf_def)
next
  case False
  with assms obtain l where l: "lut = Some l" "length l = unat (MAX_COLOR_LUT_ENTRIES ext)"
    by blast
  show ?thesis
  proof (cases "dc_create_gamma ext In_set_output_tf")
    case None
    with False show ?thesis by (simp add: set_output_tf_def)
  next
    case (Some g)
    from drm_lut_to_dc_gamma_defined [of l False ext] l obtain g' where
      "drm_lut_to_dc_gamma ext (Some l) (g\<lparr>num_entries := sz\<rparr>) False = Some g'"
      by fastforce
    with Some False l show ?thesis
      by (simp add: set_output_tf_def)
  qed
qed

lemma shaper_lut3d_no_acquire_defined:
  assumes "ss = 0 \<or> l3s = 0"
  shows "\<exists>r s'. amdgpu_dm_atomic_shaper_lut3d ext s sl ss l3 l3s = Some (r, s')"
  using assms
  by (auto simp: amdgpu_dm_atomic_shaper_lut3d_def Let_def split_beta)


lemma set_atomic_regamma_defined:
  assumes "sz = 0 \<or> (\<exists>l. lut = Some l \<and> length l = unat (MAX_COLOR_LUT_ENTRIES ext))"
  shows "\<exists>r s'. amdgpu_dm_set_atomic_regamma ext s lut sz hr t = Some (r, s')"
proof -
  from set_output_tf_defined [OF assms] obtain r f where
    "set_output_tf ext
       ((out_transfer_func s)
          \<lparr>tf_type := TF_TYPE_DISTRIBUTED_POINTS, tf := t, sdr_ref_white_level := 80\<rparr>)
       lut sz hr = Some (r, f)"
    by blast
  then show ?thesis by (simp add: amdgpu_dm_set_atomic_regamma_def)
qed

text \<open>
  A commit that passes the size checks and does not ask for both a shaper and a 3D LUT
  runs to a return: with a full size other than 1 and LUTs of fewer than \<open>2 ^ 31\<close>
  entries, nothing on its path is undefined.
\<close>

lemma update_crtc_defined:
  assumes v1: "amdgpu_dm_verify_lut_sizes ext (base crtc) = OK"
    and v2: "amdgpu_dm_verify_lut3d_size ext adev (base crtc) = OK"
    and full: "MAX_COLOR_LUT_ENTRIES ext \<noteq> 1"
    and dl: "\<forall>l. degamma_lut (base crtc) = Some l \<longrightarrow> length l < 2 ^ 31"
    and gl: "\<forall>l. gamma_lut (base crtc) = Some l \<longrightarrow> length l < 2 ^ 31"
    and na: "lut3d (base crtc) = None \<or> shaper_lut (base crtc) = None"
  shows "\<exists>r crtc'. amdgpu_dm_update_crtc_color_mgmt ext adev crtc = Some (r, crtc')"
proof -
  let ?c = "crtc\<lparr>cm_has_degamma := False, cm_is_degamma_srgb := False\<rparr>"
  let ?hr = "asic_type adev \<le> CHIP_RAVEN ext"
  let ?gsz = "snd (extract_blob_lut (gamma_lut (base crtc)))"
  have dsz: "(of_nat (length l) :: u32) = MAX_COLOR_LUT_ENTRIES ext"
    if "degamma_lut (base crtc) = Some l" for l
    using v1 that
    by (auto simp: amdgpu_dm_verify_lut_sizes_def extract_blob_lut_def Let_def
        split: if_splits)
  have gsz: "(of_nat (length l) :: u32) = MAX_COLOR_LUT_ENTRIES ext \<or>
             (of_nat (length l) :: u32) = MAX_COLOR_LEGACY_LUT_ENTRIES"
    if "gamma_lut (base crtc) = Some l" for l
    using v1 that
    by (auto simp: amdgpu_dm_verify_lut_sizes_def extract_blob_lut_def Let_def
        split: if_splits)
  have d1: "length l \<noteq> 1" if "degamma_lut (base crtc) = Some l" for l
    using dsz [OF that] full by auto
  have g1: "length l \<noteq> 1" if "gamma_lut (base crtc) = Some l" for l
    using gsz [OF that] full by (auto simp: MAX_COLOR_LEGACY_LUT_ENTRIES_def)
  from lut_is_nonlinear_defined [of "degamma_lut (base crtc)"] dl d1 obtain hd where
    hd: "lut_is_nonlinear (degamma_lut (base crtc))
           (snd (extract_blob_lut (degamma_lut (base crtc)))) = Some hd"
    by blast
  from lut_is_nonlinear_defined [of "gamma_lut (base crtc)"] gl g1 obtain hg where
    hg: "lut_is_nonlinear (gamma_lut (base crtc)) ?gsz = Some hg"
    by blast
  have "\<exists>r c1. crtc_setup_regamma ext ?c ?hr hg (?gsz = MAX_COLOR_LEGACY_LUT_ENTRIES) =
                Some (r, c1)"
  proof (cases "?gsz = MAX_COLOR_LEGACY_LUT_ENTRIES")
    case True
    then obtain l where l: "gamma_lut (base crtc) = Some l"
      by (cases "gamma_lut (base crtc)") (auto simp: MAX_COLOR_LEGACY_LUT_ENTRIES_def)
    with True have "(of_nat (length l) :: u32) = MAX_COLOR_LEGACY_LUT_ENTRIES" by simp
    with gl l have "length l = unat MAX_COLOR_LEGACY_LUT_ENTRIES"
      by (intro length_of_size) auto
    from set_legacy_tf_defined [OF this] obtain r f where
      "set_legacy_tf ext
         ((out_transfer_func (stream ?c))
            \<lparr>tf_type := TF_TYPE_DISTRIBUTED_POINTS, tf := TRANSFER_FUNCTION_SRGB\<rparr>)
         (Some l) ?gsz ?hr = Some (r, f)"
      by blast
    with True l show ?thesis by (simp add: crtc_setup_regamma_def)
  next
    case False
    let ?sz3 = "if lut3d (base crtc) \<noteq> None
                then amdgpu_dm_atomic_shaper_lut3d ext (stream ?c) (shaper_lut (base crtc))
                       (if shaper_lut (base crtc) \<noteq> None
                        then snd (extract_blob_lut (shaper_lut (base crtc))) else 0)
                       (lut3d (base crtc)) (snd (extract_blob_lut (lut3d (base crtc))))
                else amdgpu_dm_atomic_shaper_lut3d ext (stream ?c) None 0 None 0"
    have "\<exists>r s1. ?sz3 = Some (r, s1)"
      using na shaper_lut3d_no_acquire_defined by auto
    then obtain r1 s1 where s3: "?sz3 = Some (r1, s1)" by blast
    have eff: "(if hg then ?gsz else 0) = 0 \<or>
               (\<exists>l. gamma_lut (base crtc) = Some l \<and>
                    length l = unat (MAX_COLOR_LUT_ENTRIES ext))"
    proof (cases "gamma_lut (base crtc)")
      case None
      then show ?thesis by simp
    next
      case (Some l)
      with gsz [OF Some] False have "(of_nat (length l) :: u32) = MAX_COLOR_LUT_ENTRIES ext"
        by simp
      with gl Some have "length l = unat (MAX_COLOR_LUT_ENTRIES ext)"
        by (intro length_of_size) auto
      with Some show ?thesis by simp
    qed
    from set_atomic_regamma_defined [OF eff] obtain r2 s2 where
      "amdgpu_dm_set_atomic_regamma ext s1 (gamma_lut (base crtc)) (if hg then ?gsz else 0)
         ?hr (drm_tf_to_dc_tf (regamma_tf (base crtc))) = Some (r2, s2)"
      by blast
    with s3 False na show ?thesis
      by (auto simp: crtc_setup_regamma_def Let_def split_beta fst_extract_blob_lut
          split: if_splits)
  qed
  then obtain r c1 where
    "crtc_setup_regamma ext ?c ?hr hg (?gsz = MAX_COLOR_LEGACY_LUT_ENTRIES) = Some (r, c1)"
    by blast
  with v1 v2 hd hg show ?thesis
    by (simp add: amdgpu_dm_update_crtc_color_mgmt_def Let_def split_beta fst_extract_blob_lut)
qed

subsection \<open>Runs on the sample inputs\<close>

text \<open>The definitions that a run on the sample inputs unfolds.\<close>

lemmas run_defs =
  amdgpu_dm_update_crtc_color_mgmt_def crtc_setup_regamma_def crtc_setup_ctm_def
  amdgpu_dm_verify_lut_sizes_def amdgpu_dm_verify_lut3d_size_def amdgpu_dm_get_lut3d_size_def
  amdgpu_dm_atomic_shaper_lut3d_def dc_acquire_release_mpc_3dlut_for_ctx_def
  amdgpu_dm_set_atomic_regamma_def set_output_tf_def set_output_tf_params_def
  set_legacy_tf_def drm_lut_to_dc_gamma_def lut_prefix_def
  lut_is_nonlinear_def extract_blob_lut_def Let_def
  MAX_COLOR_LEGACY_LUT_ENTRIES_def MAX_COLOR_3DLUT_ENTRIES_def
  sample_ext_def sample_adev_def sample_crtc_def sample_stream_def sample_func_def
  sample_gamma_def sample_3dlut_def

text \<open>The two sample LUTs: the ramp passes the linearity check, the red LUT fails it.\<close>

lemma length_linear_ramp [simp]: "length (linear_ramp n) = n"
  by (simp add: linear_ramp_def)

lemma length_red_lut [simp]: "length (red_lut n) = n"
  by (simp add: red_lut_def)

lemma is_lut_linear_linear_ramp:
  assumes n: "1 < n" "n \<le> 65538"
  shows "is_lut_linear (linear_ramp n) (of_nat n) = Some True"
proof -
  let ?lut = "linear_ramp n"
  have N: "1 < length ?lut" "length ?lut < 2 ^ 31" using n by simp_all
  have s: "lut_sample_linear ?lut i" if i: "i < length ?lut" for i
  proof -
    define q where "q = i * 65535 div (n - 1)"
    have i': "i < n" using i by simp
    have at: "?lut ! i = grey (of_nat q)"
      using i' by (simp add: linear_ramp_def q_def)
    have "i * 65535 \<le> (n - 1) * 65535" using i' by simp
    then have "i * 65535 div (n - 1) \<le> (n - 1) * 65535 div (n - 1)"
      by (rule div_le_mono)
    also have "\<dots> = 65535" using n(1) by simp
    finally have "q \<le> 65535" unfolding q_def .
    then have u: "unat (of_nat q :: u16) = q"
      by (simp add: unat_of_nat)
    have e: "(i * 65535 mod 2 ^ 32) div (n - 1) = q"
      unfolding q_def using i' n(2) by (rule expected_no_wrap)
    have g: "red (grey w) = w" "green (grey w) = w" "blue (grey w) = w" for w
      by (simp_all add: grey_def)
    show ?thesis
      unfolding lut_sample_linear_def at length_linear_ramp e g u by simp
  qed
  have "is_lut_linear ?lut (of_nat (length ?lut)) =
        Some (\<forall>i. 0 \<le> i \<and> i < length ?lut \<longrightarrow> lut_sample_linear ?lut i)"
    unfolding is_lut_linear_def
    using is_lut_linear_from_all [OF N, of 0] by simp
  then show ?thesis using s by simp
qed

lemma is_lut_linear_red_lut:
  assumes n: "1 < n" "n < 2 ^ 31"
  shows "is_lut_linear (red_lut n) (of_nat n) = Some False"
proof -
  let ?lut = "red_lut n"
  have N: "1 < length ?lut" "length ?lut < 2 ^ 31" and k: "0 < length ?lut"
    using n by simp_all
  have "\<not> lut_sample_linear ?lut 0"
    using n by (simp add: lut_sample_linear_def red_lut_def)
  then show ?thesis
    unfolding is_lut_linear_def
    using is_lut_linear_from_step [OF k N] by simp
qed

lemma sample_set_output_tf:
  assumes "sz = 0 \<or> (\<exists>l. lut = Some l \<and> 4096 \<le> length l)"
  shows "set_output_tf sample_ext func lut sz has_rom = Some (OK, func)"
  using assms
  by (auto simp: set_output_tf_def set_output_tf_params_def drm_lut_to_dc_gamma_def
      lut_prefix_def sample_ext_def Let_def)

subsection \<open>CTM and colour adjustment\<close>

text \<open>
  C10. After a run of the output orchestrator that returns 0, the colour adjustment
  (\<open>csc_color_matrix.enable_adjustment\<close>) is off whether or not a CTM was supplied, and
  the gamut remap is on exactly when a CTM was supplied.
\<close>

theorem update_crtc_adjustment_disabled:
  assumes "amdgpu_dm_update_crtc_color_mgmt ext adev crtc = Some (OK, crtc')"
  shows "\<not> enable_adjustment (csc_color_matrix (stream crtc')) \<and>
         enable_remap (gamut_remap_matrix (stream crtc')) = (ctm (base crtc) \<noteq> None)"
proof -
  from update_crtc_cases [OF assms]
  have v: "amdgpu_dm_verify_lut_sizes ext (base crtc) = OK"
          "amdgpu_dm_verify_lut3d_size ext adev (base crtc) = OK" by auto
  from update_crtc_valid [OF v assms] obtain has_degamma has_regamma crtc1 where
    s: "crtc_setup_regamma ext (crtc\<lparr>cm_has_degamma := False, cm_is_degamma_srgb := False\<rparr>)
       (asic_type adev \<le> CHIP_RAVEN ext) has_regamma
       (snd (extract_blob_lut (gamma_lut (base crtc))) = MAX_COLOR_LEGACY_LUT_ENTRIES) =
     Some (OK, crtc1)"
    and c: "crtc' = crtc_setup_ctm (crtc1\<lparr>cm_has_degamma := has_degamma\<rparr>)"
    by fastforce
  have "base crtc1 = base crtc" using crtc_setup_regamma_base [OF s] by simp
  then show ?thesis unfolding c using crtc_setup_ctm_flags [of "crtc1\<lparr>cm_has_degamma := has_degamma\<rparr>"]
    by simp
qed

theorem update_crtc_adjustment_disabled_witness:
  "\<exists>crtc'.
     amdgpu_dm_update_crtc_color_mgmt sample_ext sample_adev
       (sample_crtc\<lparr>base := (base sample_crtc)\<lparr>ctm := Some identity_ctm\<rparr>\<rparr>) = Some (OK, crtc') \<and>
     \<not> enable_adjustment (csc_color_matrix (stream crtc')) \<and>
     enable_remap (gamut_remap_matrix (stream crtc'))"
proof -
  let ?crtc = "sample_crtc\<lparr>base := (base sample_crtc)\<lparr>ctm := Some identity_ctm\<rparr>\<rparr>"
  have "\<exists>c. amdgpu_dm_update_crtc_color_mgmt sample_ext sample_adev ?crtc = Some (OK, c)"
    by (simp add: run_defs)
  then obtain c where run: "amdgpu_dm_update_crtc_color_mgmt sample_ext sample_adev ?crtc = Some (OK, c)" ..
  from update_crtc_adjustment_disabled [OF run] run show ?thesis by simp
qed

subsection \<open>Legacy regamma\<close>

text \<open>
  C3. When the commit passes the size checks and its gamma LUT has 256 entries, the
  orchestrator sets \<open>cm_is_degamma_srgb\<close> and the output transfer function is what
  \<open>set_legacy_tf\<close> leaves when it starts from distributed points on an sRGB base, with
  the orchestrator's return code; the requested \<open>regamma_tf\<close> plays no part.
\<close>

theorem update_crtc_legacy:
  assumes v1: "amdgpu_dm_verify_lut_sizes ext (base crtc) = OK"
    and v2: "amdgpu_dm_verify_lut3d_size ext adev (base crtc) = OK"
    and g: "gamma_lut (base crtc) = Some l"
    and sz: "(of_nat (length l) :: u32) = 256"
    and run: "amdgpu_dm_update_crtc_color_mgmt ext adev crtc = Some (r, crtc')"
  shows "cm_is_degamma_srgb crtc' \<and>
         set_legacy_tf ext
           ((out_transfer_func (stream crtc))
              \<lparr>tf_type := TF_TYPE_DISTRIBUTED_POINTS, tf := TRANSFER_FUNCTION_SRGB\<rparr>)
           (Some l) 256 (asic_type adev \<le> CHIP_RAVEN ext) =
         Some (r, out_transfer_func (stream crtc'))"
proof -
  have leg: "(snd (extract_blob_lut (gamma_lut (base crtc))) = MAX_COLOR_LEGACY_LUT_ENTRIES) = True"
    using g sz by (simp add: MAX_COLOR_LEGACY_LUT_ENTRIES_def)
  from update_crtc_valid [OF v1 v2 run] obtain has_degamma has_regamma crtc1 where
    s: "crtc_setup_regamma ext (crtc\<lparr>cm_has_degamma := False, cm_is_degamma_srgb := False\<rparr>)
       (asic_type adev \<le> CHIP_RAVEN ext) has_regamma True = Some (r, crtc1)"
    and c: "crtc' = (if r \<noteq> OK then crtc1
                     else crtc_setup_ctm (crtc1\<lparr>cm_has_degamma := has_degamma\<rparr>))"
    unfolding leg by blast
  from crtc_setup_regamma_legacy [OF s]
  have 1: "cm_is_degamma_srgb crtc1"
    and 2: "set_legacy_tf ext
           ((out_transfer_func (stream crtc))
              \<lparr>tf_type := TF_TYPE_DISTRIBUTED_POINTS, tf := TRANSFER_FUNCTION_SRGB\<rparr>)
           (Some l) 256 (asic_type adev \<le> CHIP_RAVEN ext) =
         Some (r, out_transfer_func (stream crtc1))"
    using g sz by simp_all
  show ?thesis
  proof (cases "r = OK")
    case True
    then show ?thesis using 1 2 c crtc_setup_ctm_frame [of "crtc1\<lparr>cm_has_degamma := has_degamma\<rparr>"]
      by simp
  next
    case False
    then show ?thesis using 1 2 c by simp
  qed
qed

theorem update_crtc_legacy_witness:
  "\<exists>crtc'.
     amdgpu_dm_update_crtc_color_mgmt sample_ext sample_adev
       (sample_crtc\<lparr>base := (base sample_crtc)
          \<lparr>gamma_lut := Some (replicate 256 \<lparr>red = 1, green = 0, blue = 0, reserved = 0\<rparr>),
           regamma_tf := DRM_TRANSFER_FUNCTION_PQ\<rparr>\<rparr>) = Some (OK, crtc') \<and>
     cm_is_degamma_srgb crtc' \<and>
     tf_type (out_transfer_func (stream crtc')) = TF_TYPE_DISTRIBUTED_POINTS \<and>
     tf (out_transfer_func (stream crtc')) = TRANSFER_FUNCTION_SRGB"
proof -
  let ?l = "replicate 256 \<lparr>red = 1, green = 0, blue = 0, reserved = 0\<rparr>"
  let ?crtc = "sample_crtc\<lparr>base := (base sample_crtc)
          \<lparr>gamma_lut := Some ?l, regamma_tf := DRM_TRANSFER_FUNCTION_PQ\<rparr>\<rparr>"
  have lin: "is_lut_linear ?l 256 = Some False"
    unfolding is_lut_linear_def
    by (subst is_lut_linear_from.simps) (simp add: lut_at_def)
  have "\<exists>c. amdgpu_dm_update_crtc_color_mgmt sample_ext sample_adev ?crtc = Some (OK, c)"
    by (simp add: run_defs lin)
  then obtain c where run: "amdgpu_dm_update_crtc_color_mgmt sample_ext sample_adev ?crtc = Some (OK, c)"
    by blast
  have v1: "amdgpu_dm_verify_lut_sizes sample_ext (base ?crtc) = OK"
    by (simp add: run_defs)
  have v2: "amdgpu_dm_verify_lut3d_size sample_ext sample_adev (base ?crtc) = OK"
    by (simp add: run_defs)
  have g: "gamma_lut (base ?crtc) = Some ?l" by simp
  have sz: "(of_nat (length ?l) :: u32) = 256" by simp
  note leg = update_crtc_legacy [OF v1 v2 g sz run]
  have sl: "set_legacy_tf sample_ext
           ((out_transfer_func (stream ?crtc))
              \<lparr>tf_type := TF_TYPE_DISTRIBUTED_POINTS, tf := TRANSFER_FUNCTION_SRGB\<rparr>)
           (Some ?l) 256 (asic_type sample_adev \<le> CHIP_RAVEN sample_ext) =
         Some (OK, sample_func\<lparr>tf_type := TF_TYPE_DISTRIBUTED_POINTS,
                                tf := TRANSFER_FUNCTION_SRGB\<rparr>)"
    by (simp add: run_defs)
  have "Some (OK, out_transfer_func (stream c)) =
        Some (OK, sample_func\<lparr>tf_type := TF_TYPE_DISTRIBUTED_POINTS,
                               tf := TRANSFER_FUNCTION_SRGB\<rparr>)"
    using conjunct2 [OF leg] sl by (rule trans [OF sym])
  then have o: "out_transfer_func (stream c) =
        sample_func\<lparr>tf_type := TF_TYPE_DISTRIBUTED_POINTS, tf := TRANSFER_FUNCTION_SRGB\<rparr>"
    by simp
  have "tf_type (out_transfer_func (stream c)) = TF_TYPE_DISTRIBUTED_POINTS"
    unfolding o by simp
  moreover have "tf (out_transfer_func (stream c)) = TRANSFER_FUNCTION_SRGB"
    unfolding o by simp
  ultimately show ?thesis using run conjunct1 [OF leg] by blast
qed

subsection \<open>Atomic regamma\<close>

lemma shaper_lut3d_no_acquire_ok:
  assumes "amdgpu_dm_atomic_shaper_lut3d ext s sl ss l3 l3s = Some (r, s')"
    and "ss = 0 \<or> l3s = 0"
    and "lut3d_func s = None \<or> func_shaper s = None \<or> mpc_3dlut_release ext"
  shows "r = OK"
  using assms
  by (auto simp: amdgpu_dm_atomic_shaper_lut3d_def dc_acquire_release_mpc_3dlut_for_ctx_def
      Let_def split: option.splits if_splits prod.splits)

text \<open>
  The regamma stage of a run in atomic mode that got past the shaper and 3D LUT step:
  because it returned 0, or because that step has nothing to acquire and cannot fail.
\<close>

lemma update_crtc_atomic_regamma_run:
  assumes v1: "amdgpu_dm_verify_lut_sizes ext (base crtc) = OK"
    and v2: "amdgpu_dm_verify_lut3d_size ext adev (base crtc) = OK"
    and run: "amdgpu_dm_update_crtc_color_mgmt ext adev crtc = Some (r, crtc')"
    and atomic: "snd (extract_blob_lut (gamma_lut (base crtc))) \<noteq> MAX_COLOR_LEGACY_LUT_ENTRIES"
    and reach: "r = OK \<or>
                ((lut3d (base crtc) = None \<or> shaper_lut (base crtc) = None) \<and>
                 (lut3d_func (stream crtc) = None \<or> func_shaper (stream crtc) = None \<or>
                  mpc_3dlut_release ext))"
  shows "if (case gamma_lut (base crtc) of
               None \<Rightarrow> 0
             | Some l \<Rightarrow> if is_lut_linear l (of_nat (length l)) = Some False
                         then of_nat (length l) else 0) = (0 :: u32) \<and>
            drm_tf_to_dc_tf (regamma_tf (base crtc)) = TRANSFER_FUNCTION_LINEAR
         then r = OK \<and>
              out_transfer_func (stream crtc') =
                (out_transfer_func (stream crtc))
                  \<lparr>tf_type := TF_TYPE_BYPASS, tf := TRANSFER_FUNCTION_LINEAR\<rparr>
         else set_output_tf ext
                ((out_transfer_func (stream crtc))
                   \<lparr>tf_type := TF_TYPE_DISTRIBUTED_POINTS,
                    tf := drm_tf_to_dc_tf (regamma_tf (base crtc)),
                    sdr_ref_white_level := 80\<rparr>)
                (gamma_lut (base crtc))
                (case gamma_lut (base crtc) of
                   None \<Rightarrow> 0
                 | Some l \<Rightarrow> if is_lut_linear l (of_nat (length l)) = Some False
                             then of_nat (length l) else 0)
                (asic_type adev \<le> CHIP_RAVEN ext) =
              Some (r, out_transfer_func (stream crtc'))"
proof -
  let ?c = "crtc\<lparr>cm_has_degamma := False, cm_is_degamma_srgb := False\<rparr>"
  from update_crtc_valid [OF v1 v2 run] atomic obtain has_degamma has_regamma crtc1 where
    hg: "lut_is_nonlinear (gamma_lut (base crtc))
           (snd (extract_blob_lut (gamma_lut (base crtc)))) = Some has_regamma"
    and s: "crtc_setup_regamma ext ?c (asic_type adev \<le> CHIP_RAVEN ext) has_regamma False =
            Some (r, crtc1)"
    and c: "crtc' = (if r \<noteq> OK then crtc1
                     else crtc_setup_ctm (crtc1\<lparr>cm_has_degamma := has_degamma\<rparr>))"
    by fastforce
  have b: "base ?c = base crtc" by simp
  from crtc_setup_regamma_atomic [OF s] obtain r1 stream1 where
    sh: "(if lut3d (base crtc) \<noteq> None
            then amdgpu_dm_atomic_shaper_lut3d ext (stream ?c) (shaper_lut (base crtc))
                   (snd (extract_blob_lut (shaper_lut (base crtc))))
                   (lut3d (base crtc)) (snd (extract_blob_lut (lut3d (base crtc))))
            else amdgpu_dm_atomic_shaper_lut3d ext (stream ?c) None 0 None 0) =
           Some (r1, stream1)"
    and rest: "if r1 \<noteq> OK then r = r1 \<and> crtc1 = ?c\<lparr>stream := stream1\<rparr>
            else \<exists>stream2.
                   amdgpu_dm_set_atomic_regamma ext stream1 (gamma_lut (base crtc))
                     (if has_regamma then snd (extract_blob_lut (gamma_lut (base crtc))) else 0)
                     (asic_type adev \<le> CHIP_RAVEN ext)
                     (drm_tf_to_dc_tf (regamma_tf (base crtc))) = Some (r, stream2) \<and>
                   crtc1 = ?c\<lparr>stream := stream2\<rparr>"
    unfolding b by blast
  have r1: "r1 = OK"
  proof (cases "r = OK")
    case True
    with rest show ?thesis by (auto split: if_splits)
  next
    case False
    with reach have na: "lut3d (base crtc) = None \<or> shaper_lut (base crtc) = None"
      and rel: "lut3d_func (stream ?c) = None \<or> func_shaper (stream ?c) = None \<or>
                mpc_3dlut_release ext"
      by simp_all
    show ?thesis
    proof (cases "lut3d (base crtc)")
      case None
      with sh have "amdgpu_dm_atomic_shaper_lut3d ext (stream ?c) None 0 None 0 =
                    Some (r1, stream1)" by simp
      from shaper_lut3d_no_acquire_ok [OF this _ rel] show ?thesis by simp
    next
      case (Some l)
      with na have "shaper_lut (base crtc) = None" by simp
      with sh Some have "amdgpu_dm_atomic_shaper_lut3d ext (stream ?c) None 0
          (lut3d (base crtc)) (snd (extract_blob_lut (lut3d (base crtc)))) = Some (r1, stream1)"
        by simp
      from shaper_lut3d_no_acquire_ok [OF this _ rel] show ?thesis by simp
    qed
  qed
  with rest obtain stream2 where
    rg: "amdgpu_dm_set_atomic_regamma ext stream1 (gamma_lut (base crtc))
           (if has_regamma then snd (extract_blob_lut (gamma_lut (base crtc))) else 0)
           (asic_type adev \<le> CHIP_RAVEN ext)
           (drm_tf_to_dc_tf (regamma_tf (base crtc))) = Some (r, stream2)"
    and c1: "crtc1 = ?c\<lparr>stream := stream2\<rparr>"
    by auto
  have o1: "out_transfer_func stream1 = out_transfer_func (stream crtc)"
    using sh shaper_lut3d_frame by (auto split: if_splits)
  have o2: "out_transfer_func (stream crtc') = out_transfer_func stream2"
    unfolding c c1
    using crtc_setup_ctm_frame [of "?c\<lparr>stream := stream2, cm_has_degamma := has_degamma\<rparr>"]
    by simp
  have eff: "(if has_regamma then snd (extract_blob_lut (gamma_lut (base crtc))) else 0) =
         (case gamma_lut (base crtc) of None \<Rightarrow> 0
          | Some l \<Rightarrow> if is_lut_linear l (of_nat (length l)) = Some False
                      then of_nat (length l) else 0)"
    by (rule lut_is_nonlinear_eff [OF hg])
  note res = set_atomic_regamma_result [OF rg, unfolded eff o1]
  show ?thesis
    unfolding o2 using res by (simp split: if_splits)
qed

text \<open>
  C5. In atomic mode (the gamma LUT does not have 256 entries) the size handed to the
  regamma stage is the LUT's size when \<open>is_lut_linear\<close> returns false and 0 otherwise:
  a linear LUT is dropped. Two statements about the output transfer function follow.
  After a run that returns 0, it is Bypass with a linear curve when that size is 0 and the
  requested curve is linear; otherwise it is what \<open>set_output_tf\<close> returns, with 0, when
  it starts from distributed points with the requested curve and reference white 80.
  And when the sizes are valid, the LUTs are shorter than \<open>2 ^ 31\<close>, the property does
  not ask for both a shaper and a 3D LUT, and the pair of the stream is not held or can
  be released, the run does return: with 0 and Bypass in the first case, and in the
  second case \<open>set_output_tf\<close> returns, and the run returns its code and its transfer
  function.
\<close>

theorem update_crtc_atomic_regamma:
  assumes atomic: "snd (extract_blob_lut (gamma_lut (base crtc))) \<noteq> MAX_COLOR_LEGACY_LUT_ENTRIES"
  shows
    "let regamma_size =
           (case gamma_lut (base crtc) of
              None \<Rightarrow> 0
            | Some l \<Rightarrow> if is_lut_linear l (of_nat (length l)) = Some False
                        then of_nat (length l) else 0);
         tf' = drm_tf_to_dc_tf (regamma_tf (base crtc));
         bypass = (out_transfer_func (stream crtc))
                    \<lparr>tf_type := TF_TYPE_BYPASS, tf := TRANSFER_FUNCTION_LINEAR\<rparr>;
         built = set_output_tf ext
                   ((out_transfer_func (stream crtc))
                      \<lparr>tf_type := TF_TYPE_DISTRIBUTED_POINTS, tf := tf',
                       sdr_ref_white_level := 80\<rparr>)
                   (gamma_lut (base crtc)) regamma_size (asic_type adev \<le> CHIP_RAVEN ext)
     in
       (amdgpu_dm_update_crtc_color_mgmt ext adev crtc = Some (OK, crtc') \<longrightarrow>
          (if regamma_size = 0 \<and> tf' = TRANSFER_FUNCTION_LINEAR
           then out_transfer_func (stream crtc') = bypass
           else built = Some (OK, out_transfer_func (stream crtc')))) \<and>
       (amdgpu_dm_verify_lut_sizes ext (base crtc) = OK \<and>
        amdgpu_dm_verify_lut3d_size ext adev (base crtc) = OK \<and>
        MAX_COLOR_LUT_ENTRIES ext \<noteq> 1 \<and>
        (\<forall>l. degamma_lut (base crtc) = Some l \<longrightarrow> length l < 2 ^ 31) \<and>
        (\<forall>l. gamma_lut (base crtc) = Some l \<longrightarrow> length l < 2 ^ 31) \<and>
        (lut3d (base crtc) = None \<or> shaper_lut (base crtc) = None) \<and>
        (lut3d_func (stream crtc) = None \<or> func_shaper (stream crtc) = None \<or>
         mpc_3dlut_release ext) \<longrightarrow>
          (\<exists>r c. amdgpu_dm_update_crtc_color_mgmt ext adev crtc = Some (r, c) \<and>
                  (if regamma_size = 0 \<and> tf' = TRANSFER_FUNCTION_LINEAR
                   then r = OK \<and> out_transfer_func (stream c) = bypass
                   else built = Some (r, out_transfer_func (stream c)))))"
proof -
  have A: "if (case gamma_lut (base crtc) of
               None \<Rightarrow> 0
             | Some l \<Rightarrow> if is_lut_linear l (of_nat (length l)) = Some False
                         then of_nat (length l) else 0) = (0 :: u32) \<and>
            drm_tf_to_dc_tf (regamma_tf (base crtc)) = TRANSFER_FUNCTION_LINEAR
         then OK = OK \<and>
              out_transfer_func (stream crtc') =
                (out_transfer_func (stream crtc))
                  \<lparr>tf_type := TF_TYPE_BYPASS, tf := TRANSFER_FUNCTION_LINEAR\<rparr>
         else set_output_tf ext
                ((out_transfer_func (stream crtc))
                   \<lparr>tf_type := TF_TYPE_DISTRIBUTED_POINTS,
                    tf := drm_tf_to_dc_tf (regamma_tf (base crtc)),
                    sdr_ref_white_level := 80\<rparr>)
                (gamma_lut (base crtc))
                (case gamma_lut (base crtc) of
                   None \<Rightarrow> 0
                 | Some l \<Rightarrow> if is_lut_linear l (of_nat (length l)) = Some False
                             then of_nat (length l) else 0)
                (asic_type adev \<le> CHIP_RAVEN ext) =
              Some (OK, out_transfer_func (stream crtc'))"
    if run: "amdgpu_dm_update_crtc_color_mgmt ext adev crtc = Some (OK, crtc')"
  proof -
    from update_crtc_cases [OF run]
    have v: "amdgpu_dm_verify_lut_sizes ext (base crtc) = OK"
            "amdgpu_dm_verify_lut3d_size ext adev (base crtc) = OK" by auto
    show ?thesis by (rule update_crtc_atomic_regamma_run [OF v run atomic]) simp
  qed
  have B: "\<exists>r c. amdgpu_dm_update_crtc_color_mgmt ext adev crtc = Some (r, c) \<and>
         (if (case gamma_lut (base crtc) of
               None \<Rightarrow> 0
             | Some l \<Rightarrow> if is_lut_linear l (of_nat (length l)) = Some False
                         then of_nat (length l) else 0) = (0 :: u32) \<and>
            drm_tf_to_dc_tf (regamma_tf (base crtc)) = TRANSFER_FUNCTION_LINEAR
         then r = OK \<and>
              out_transfer_func (stream c) =
                (out_transfer_func (stream crtc))
                  \<lparr>tf_type := TF_TYPE_BYPASS, tf := TRANSFER_FUNCTION_LINEAR\<rparr>
         else set_output_tf ext
                ((out_transfer_func (stream crtc))
                   \<lparr>tf_type := TF_TYPE_DISTRIBUTED_POINTS,
                    tf := drm_tf_to_dc_tf (regamma_tf (base crtc)),
                    sdr_ref_white_level := 80\<rparr>)
                (gamma_lut (base crtc))
                (case gamma_lut (base crtc) of
                   None \<Rightarrow> 0
                 | Some l \<Rightarrow> if is_lut_linear l (of_nat (length l)) = Some False
                             then of_nat (length l) else 0)
                (asic_type adev \<le> CHIP_RAVEN ext) =
              Some (r, out_transfer_func (stream c)))"
    if v1: "amdgpu_dm_verify_lut_sizes ext (base crtc) = OK"
      and v2: "amdgpu_dm_verify_lut3d_size ext adev (base crtc) = OK"
      and full: "MAX_COLOR_LUT_ENTRIES ext \<noteq> 1"
      and dl: "\<forall>l. degamma_lut (base crtc) = Some l \<longrightarrow> length l < 2 ^ 31"
      and gl: "\<forall>l. gamma_lut (base crtc) = Some l \<longrightarrow> length l < 2 ^ 31"
      and na: "lut3d (base crtc) = None \<or> shaper_lut (base crtc) = None"
      and rel: "lut3d_func (stream crtc) = None \<or> func_shaper (stream crtc) = None \<or>
                mpc_3dlut_release ext"
  proof -
    from update_crtc_defined [OF v1 v2 full dl gl na] obtain r c where
      run: "amdgpu_dm_update_crtc_color_mgmt ext adev crtc = Some (r, c)" by blast
    from update_crtc_atomic_regamma_run [OF v1 v2 run atomic] na rel run
    show ?thesis by blast
  qed
  show ?thesis unfolding Let_def using A B by simp
qed

theorem update_crtc_atomic_regamma_witness:
  "(\<exists>c. amdgpu_dm_update_crtc_color_mgmt sample_ext sample_adev
           (sample_crtc\<lparr>base := (base sample_crtc)
              \<lparr>gamma_lut := Some (red_lut 4096),
               regamma_tf := DRM_TRANSFER_FUNCTION_SRGB\<rparr>\<rparr>) = Some (OK, c) \<and>
         set_output_tf sample_ext
           (sample_func\<lparr>tf_type := TF_TYPE_DISTRIBUTED_POINTS, tf := TRANSFER_FUNCTION_SRGB,
                        sdr_ref_white_level := 80\<rparr>)
           (Some (red_lut 4096)) 4096 False = Some (OK, out_transfer_func (stream c)) \<and>
         out_transfer_func (stream c) =
           sample_func\<lparr>tf_type := TF_TYPE_DISTRIBUTED_POINTS, tf := TRANSFER_FUNCTION_SRGB,
                       sdr_ref_white_level := 80\<rparr>) \<and>
   (\<exists>c. amdgpu_dm_update_crtc_color_mgmt sample_ext sample_adev
           (sample_crtc\<lparr>base := (base sample_crtc)
              \<lparr>gamma_lut := Some (linear_ramp 4096)\<rparr>\<rparr>) = Some (OK, c) \<and>
         out_transfer_func (stream c) =
           sample_func\<lparr>tf_type := TF_TYPE_BYPASS, tf := TRANSFER_FUNCTION_LINEAR\<rparr>) \<and>
   (\<exists>c. amdgpu_dm_update_crtc_color_mgmt sample_ext sample_adev
           (sample_crtc\<lparr>base := (base sample_crtc)
              \<lparr>gamma_lut := Some (linear_ramp 4096),
               regamma_tf := DRM_TRANSFER_FUNCTION_PQ\<rparr>\<rparr>) = Some (OK, c) \<and>
         set_output_tf sample_ext
           (sample_func\<lparr>tf_type := TF_TYPE_DISTRIBUTED_POINTS, tf := TRANSFER_FUNCTION_PQ,
                        sdr_ref_white_level := 80\<rparr>)
           (Some (linear_ramp 4096)) 0 False = Some (OK, out_transfer_func (stream c)) \<and>
         out_transfer_func (stream c) =
           sample_func\<lparr>tf_type := TF_TYPE_DISTRIBUTED_POINTS, tf := TRANSFER_FUNCTION_PQ,
                       sdr_ref_white_level := 80\<rparr>)"
proof -
  have red: "is_lut_linear (red_lut 4096) 4096 = Some False"
    using is_lut_linear_red_lut [of 4096] by simp
  have ramp: "is_lut_linear (linear_ramp 4096) 4096 = Some True"
    using is_lut_linear_linear_ramp [of 4096] by simp
  have pre: "amdgpu_dm_verify_lut_sizes sample_ext
               ((base sample_crtc)\<lparr>gamma_lut := Some l, regamma_tf := t\<rparr>) = OK"
            "amdgpu_dm_verify_lut3d_size sample_ext sample_adev
               ((base sample_crtc)\<lparr>gamma_lut := Some l, regamma_tf := t\<rparr>) = OK"
    if "length l = 4096" for l t
    using that
    by (simp_all add: amdgpu_dm_verify_lut_sizes_def amdgpu_dm_verify_lut3d_size_def
        amdgpu_dm_get_lut3d_size_def extract_blob_lut_def Let_def
        MAX_COLOR_LEGACY_LUT_ENTRIES_def MAX_COLOR_3DLUT_ENTRIES_def
        sample_ext_def sample_adev_def sample_crtc_def)
  have pre': "amdgpu_dm_verify_lut_sizes sample_ext
                ((base sample_crtc)\<lparr>gamma_lut := Some l\<rparr>) = OK"
             "amdgpu_dm_verify_lut3d_size sample_ext sample_adev
                ((base sample_crtc)\<lparr>gamma_lut := Some l\<rparr>) = OK"
    if "length l = 4096" for l
    using that
    by (simp_all add: amdgpu_dm_verify_lut_sizes_def amdgpu_dm_verify_lut3d_size_def
        amdgpu_dm_get_lut3d_size_def extract_blob_lut_def Let_def
        MAX_COLOR_LEGACY_LUT_ENTRIES_def MAX_COLOR_3DLUT_ENTRIES_def
        sample_ext_def sample_adev_def sample_crtc_def)
  have smp: "MAX_COLOR_LUT_ENTRIES sample_ext \<noteq> 1"
            "degamma_lut (base sample_crtc) = None"
            "lut3d (base sample_crtc) = None"
            "regamma_tf (base sample_crtc) = DRM_TRANSFER_FUNCTION_DEFAULT"
            "lut3d_func (stream sample_crtc) = None"
            "out_transfer_func (stream sample_crtc) = sample_func"
            "\<not> asic_type sample_adev \<le> CHIP_RAVEN sample_ext"
    by (simp_all add: sample_ext_def sample_adev_def sample_crtc_def sample_stream_def)
  have so: "set_output_tf sample_ext func (Some l) sz False = Some (OK, func)"
    if "length l = 4096" for func l sz
    using that by (intro sample_set_output_tf) simp
  let ?red = "sample_crtc\<lparr>base := (base sample_crtc)
              \<lparr>gamma_lut := Some (red_lut 4096),
               regamma_tf := DRM_TRANSFER_FUNCTION_SRGB\<rparr>\<rparr>"
  let ?ramp = "sample_crtc\<lparr>base := (base sample_crtc)
              \<lparr>gamma_lut := Some (linear_ramp 4096)\<rparr>\<rparr>"
  let ?pq = "sample_crtc\<lparr>base := (base sample_crtc)
              \<lparr>gamma_lut := Some (linear_ramp 4096),
               regamma_tf := DRM_TRANSFER_FUNCTION_PQ\<rparr>\<rparr>"
  have "\<exists>c. amdgpu_dm_update_crtc_color_mgmt sample_ext sample_adev ?red = Some (OK, c) \<and>
         sample_func\<lparr>tf_type := TF_TYPE_DISTRIBUTED_POINTS, tf := TRANSFER_FUNCTION_SRGB,
                     sdr_ref_white_level := 80\<rparr> = out_transfer_func (stream c)"
    using update_crtc_atomic_regamma [where crtc = ?red and ext = sample_ext
        and adev = sample_adev and crtc' = sample_crtc]
    by (simp add: Let_def pre smp so red MAX_COLOR_LEGACY_LUT_ENTRIES_def)
  then obtain c1 where
    r1: "amdgpu_dm_update_crtc_color_mgmt sample_ext sample_adev ?red = Some (OK, c1)"
    and o1: "out_transfer_func (stream c1) =
             sample_func\<lparr>tf_type := TF_TYPE_DISTRIBUTED_POINTS, tf := TRANSFER_FUNCTION_SRGB,
                         sdr_ref_white_level := 80\<rparr>"
    by auto
  have "\<exists>c. amdgpu_dm_update_crtc_color_mgmt sample_ext sample_adev ?ramp = Some (OK, c) \<and>
         out_transfer_func (stream c) =
           sample_func\<lparr>tf_type := TF_TYPE_BYPASS, tf := TRANSFER_FUNCTION_LINEAR\<rparr>"
    using update_crtc_atomic_regamma [where crtc = ?ramp and ext = sample_ext
        and adev = sample_adev and crtc' = sample_crtc]
    by (simp add: Let_def pre' smp so ramp MAX_COLOR_LEGACY_LUT_ENTRIES_def)
  then obtain c2 where
    r2: "amdgpu_dm_update_crtc_color_mgmt sample_ext sample_adev ?ramp = Some (OK, c2)"
    and o2: "out_transfer_func (stream c2) =
             sample_func\<lparr>tf_type := TF_TYPE_BYPASS, tf := TRANSFER_FUNCTION_LINEAR\<rparr>"
    by auto
  have "\<exists>c. amdgpu_dm_update_crtc_color_mgmt sample_ext sample_adev ?pq = Some (OK, c) \<and>
         sample_func\<lparr>tf_type := TF_TYPE_DISTRIBUTED_POINTS, tf := TRANSFER_FUNCTION_PQ,
                     sdr_ref_white_level := 80\<rparr> = out_transfer_func (stream c)"
    using update_crtc_atomic_regamma [where crtc = ?pq and ext = sample_ext
        and adev = sample_adev and crtc' = sample_crtc]
    by (simp add: Let_def pre smp so ramp MAX_COLOR_LEGACY_LUT_ENTRIES_def)
  then obtain c3 where
    r3: "amdgpu_dm_update_crtc_color_mgmt sample_ext sample_adev ?pq = Some (OK, c3)"
    and o3: "out_transfer_func (stream c3) =
             sample_func\<lparr>tf_type := TF_TYPE_DISTRIBUTED_POINTS, tf := TRANSFER_FUNCTION_PQ,
                         sdr_ref_white_level := 80\<rparr>"
    by auto
  have A: "\<exists>c. amdgpu_dm_update_crtc_color_mgmt sample_ext sample_adev ?red = Some (OK, c) \<and>
         set_output_tf sample_ext
           (sample_func\<lparr>tf_type := TF_TYPE_DISTRIBUTED_POINTS, tf := TRANSFER_FUNCTION_SRGB,
                        sdr_ref_white_level := 80\<rparr>)
           (Some (red_lut 4096)) 4096 False = Some (OK, out_transfer_func (stream c)) \<and>
         out_transfer_func (stream c) =
           sample_func\<lparr>tf_type := TF_TYPE_DISTRIBUTED_POINTS, tf := TRANSFER_FUNCTION_SRGB,
                       sdr_ref_white_level := 80\<rparr>"
    by (rule exI [of _ c1]) (simp add: r1 o1 so)
  have B: "\<exists>c. amdgpu_dm_update_crtc_color_mgmt sample_ext sample_adev ?ramp = Some (OK, c) \<and>
         out_transfer_func (stream c) =
           sample_func\<lparr>tf_type := TF_TYPE_BYPASS, tf := TRANSFER_FUNCTION_LINEAR\<rparr>"
    by (rule exI [of _ c2]) (simp add: r2 o2)
  have C: "\<exists>c. amdgpu_dm_update_crtc_color_mgmt sample_ext sample_adev ?pq = Some (OK, c) \<and>
         set_output_tf sample_ext
           (sample_func\<lparr>tf_type := TF_TYPE_DISTRIBUTED_POINTS, tf := TRANSFER_FUNCTION_PQ,
                        sdr_ref_white_level := 80\<rparr>)
           (Some (linear_ramp 4096)) 0 False = Some (OK, out_transfer_func (stream c)) \<and>
         out_transfer_func (stream c) =
           sample_func\<lparr>tf_type := TF_TYPE_DISTRIBUTED_POINTS, tf := TRANSFER_FUNCTION_PQ,
                       sdr_ref_white_level := 80\<rparr>"
    by (rule exI [of _ c3]) (simp add: r3 o3 so)
  from A B C show ?thesis by (intro conjI)
qed

subsection \<open>The 3D LUT and shaper pair\<close>

text \<open>
  C4. If the stream's 3D LUT and shaper pointers are both present or both absent before
  a run of the output orchestrator, they are so at its return, whatever the return code.
  After a run in atomic mode that returns 0 with no 3D LUT requested, both pointers are
  absent: a pair that was held has been released.
\<close>

theorem update_crtc_release_pair:
  assumes run: "amdgpu_dm_update_crtc_color_mgmt ext adev crtc = Some (r, crtc')"
    and pair: "(lut3d_func (stream crtc) = None) = (func_shaper (stream crtc) = None)"
  shows "((lut3d_func (stream crtc') = None) = (func_shaper (stream crtc') = None)) \<and>
         (r = OK \<and>
          snd (extract_blob_lut (gamma_lut (base crtc))) \<noteq> MAX_COLOR_LEGACY_LUT_ENTRIES \<and>
          lut3d (base crtc) = None \<longrightarrow>
            lut3d_func (stream crtc') = None \<and> func_shaper (stream crtc') = None)"
proof -
  let ?c = "crtc\<lparr>cm_has_degamma := False, cm_is_degamma_srgb := False\<rparr>"
  from update_crtc_cases [OF run] show ?thesis
  proof
    assume "r = EINVAL \<and> crtc' = crtc \<and>
          (amdgpu_dm_verify_lut_sizes ext (base crtc) = EINVAL \<or>
           amdgpu_dm_verify_lut3d_size ext adev (base crtc) = EINVAL)"
    then show ?thesis using pair by simp
  next
    assume v: "amdgpu_dm_verify_lut_sizes ext (base crtc) = OK \<and>
          amdgpu_dm_verify_lut3d_size ext adev (base crtc) = OK"
    from update_crtc_valid [OF conjunct1 [OF v] conjunct2 [OF v] run]
    obtain has_degamma has_regamma crtc1 where
      s: "crtc_setup_regamma ext ?c (asic_type adev \<le> CHIP_RAVEN ext) has_regamma
           (snd (extract_blob_lut (gamma_lut (base crtc))) = MAX_COLOR_LEGACY_LUT_ENTRIES) =
          Some (r, crtc1)"
      and c: "crtc' = (if r \<noteq> OK then crtc1
                       else crtc_setup_ctm (crtc1\<lparr>cm_has_degamma := has_degamma\<rparr>))"
      by blast
    have pc: "(lut3d_func (stream ?c) = None) = (func_shaper (stream ?c) = None)"
      using pair by simp
    have eq: "lut3d_func (stream crtc') = lut3d_func (stream crtc1) \<and>
              func_shaper (stream crtc') = func_shaper (stream crtc1)"
      unfolding c using crtc_setup_ctm_frame [of "crtc1\<lparr>cm_has_degamma := has_degamma\<rparr>"]
      by simp
    have 1: "(lut3d_func (stream crtc') = None) = (func_shaper (stream crtc') = None)"
      using crtc_setup_regamma_pair [OF s pc] eq by simp
    have 2: "lut3d_func (stream crtc') = None \<and> func_shaper (stream crtc') = None"
      if "r = OK"
         "snd (extract_blob_lut (gamma_lut (base crtc))) \<noteq> MAX_COLOR_LEGACY_LUT_ENTRIES"
         "lut3d (base crtc) = None"
    proof -
      from s that have "crtc_setup_regamma ext ?c (asic_type adev \<le> CHIP_RAVEN ext)
          has_regamma False = Some (OK, crtc1)" by simp
      from crtc_setup_regamma_no_acquire [OF this _ pc] that(3) eq show ?thesis by simp
    qed
    from 1 2 show ?thesis by auto
  qed
qed

theorem update_crtc_release_pair_witness:
  "\<exists>crtc'.
     amdgpu_dm_update_crtc_color_mgmt sample_ext sample_adev
       (sample_crtc\<lparr>stream := sample_stream
          \<lparr>lut3d_func := Some sample_3dlut, func_shaper := Some sample_func\<rparr>\<rparr>) = Some (OK, crtc') \<and>
     lut3d_func (stream crtc') = None \<and> func_shaper (stream crtc') = None"
proof -
  let ?crtc = "sample_crtc\<lparr>stream := sample_stream
          \<lparr>lut3d_func := Some sample_3dlut, func_shaper := Some sample_func\<rparr>\<rparr>"
  have "\<exists>c. amdgpu_dm_update_crtc_color_mgmt sample_ext sample_adev ?crtc = Some (OK, c)"
    by (simp add: run_defs)
  then obtain c where run: "amdgpu_dm_update_crtc_color_mgmt sample_ext sample_adev ?crtc = Some (OK, c)" ..
  have pair: "(lut3d_func (stream ?crtc) = None) = (func_shaper (stream ?crtc) = None)"
    by simp
  have side: "OK = OK \<and>
          snd (extract_blob_lut (gamma_lut (base ?crtc))) \<noteq> MAX_COLOR_LEGACY_LUT_ENTRIES \<and>
          lut3d (base ?crtc) = None"
    by (simp add: sample_crtc_def extract_blob_lut_def MAX_COLOR_LEGACY_LUT_ENTRIES_def)
  from update_crtc_release_pair [OF run pair] side
  have "lut3d_func (stream c) = None \<and> func_shaper (stream c) = None" by blast
  with run show ?thesis by simp
qed

text \<open>
  C1 fails on the code. \<open>amdgpu_dm_atomic_shaper_lut3d\<close> computes
  \<^verbatim>\<open>acquire = drm_shaper_size && drm_lut3d_size\<close>, so a 3D LUT without a shaper LUT
  acquires nothing: after a run in atomic mode that returns 0, with a 3D LUT and no
  shaper LUT, both pointers of the stream are absent, and neither the 3D LUT stage nor a
  Bypass shaper exists. The Bypass branch of \<open>amdgpu_dm_atomic_shaper_lut\<close> for
  \<^verbatim>\<open>shaper_size == 0\<close> is never reached.
\<close>

theorem update_crtc_lut3d_without_shaper:
  assumes run: "amdgpu_dm_update_crtc_color_mgmt ext adev crtc = Some (OK, crtc')"
    and atomic: "snd (extract_blob_lut (gamma_lut (base crtc))) \<noteq> MAX_COLOR_LEGACY_LUT_ENTRIES"
    and l3: "lut3d (base crtc) = Some l"
    and sh: "shaper_lut (base crtc) = None"
    and pair: "(lut3d_func (stream crtc) = None) = (func_shaper (stream crtc) = None)"
  shows "lut3d_func (stream crtc') = None \<and> func_shaper (stream crtc') = None"
proof -
  let ?c = "crtc\<lparr>cm_has_degamma := False, cm_is_degamma_srgb := False\<rparr>"
  from update_crtc_cases [OF run]
  have v: "amdgpu_dm_verify_lut_sizes ext (base crtc) = OK"
          "amdgpu_dm_verify_lut3d_size ext adev (base crtc) = OK" by auto
  from update_crtc_valid [OF v run] atomic obtain has_degamma has_regamma crtc1 where
    s: "crtc_setup_regamma ext ?c (asic_type adev \<le> CHIP_RAVEN ext) has_regamma False =
        Some (OK, crtc1)"
    and c: "crtc' = crtc_setup_ctm (crtc1\<lparr>cm_has_degamma := has_degamma\<rparr>)"
    by fastforce
  have pc: "(lut3d_func (stream ?c) = None) = (func_shaper (stream ?c) = None)"
    using pair by simp
  from crtc_setup_regamma_no_acquire [OF s _ pc] sh
  have "lut3d_func (stream crtc1) = None \<and> func_shaper (stream crtc1) = None" by simp
  then show ?thesis
    unfolding c using crtc_setup_ctm_frame [of "crtc1\<lparr>cm_has_degamma := has_degamma\<rparr>"]
    by simp
qed

theorem update_crtc_lut3d_without_shaper_witness:
  "\<exists>crtc'.
     amdgpu_dm_update_crtc_color_mgmt sample_ext sample_adev
       (sample_crtc\<lparr>base := (base sample_crtc)
          \<lparr>lut3d := Some (replicate 4913 (grey 0))\<rparr>\<rparr>) = Some (OK, crtc') \<and>
     lut3d_func (stream crtc') = None \<and> func_shaper (stream crtc') = None"
proof -
  let ?crtc = "sample_crtc\<lparr>base := (base sample_crtc)
          \<lparr>lut3d := Some (replicate 4913 (grey 0))\<rparr>\<rparr>"
  have "\<exists>c. amdgpu_dm_update_crtc_color_mgmt sample_ext sample_adev ?crtc = Some (OK, c)"
    by (simp add: run_defs)
  then obtain c where run: "amdgpu_dm_update_crtc_color_mgmt sample_ext sample_adev ?crtc = Some (OK, c)" ..
  have atomic: "snd (extract_blob_lut (gamma_lut (base ?crtc))) \<noteq> MAX_COLOR_LEGACY_LUT_ENTRIES"
    by (simp add: sample_crtc_def extract_blob_lut_def MAX_COLOR_LEGACY_LUT_ENTRIES_def)
  have l3: "lut3d (base ?crtc) = Some (replicate 4913 (grey 0))" by simp
  have sh: "shaper_lut (base ?crtc) = None" by (simp add: sample_crtc_def)
  have pair: "(lut3d_func (stream ?crtc) = None) = (func_shaper (stream ?crtc) = None)"
    by (simp add: sample_crtc_def sample_stream_def)
  from update_crtc_lut3d_without_shaper [OF run atomic l3 sh pair] run show ?thesis by simp
qed

subsection \<open>Surface degamma\<close>

text \<open>
  C9 (amended). When the surface has no degamma LUT or a linear one, its requested curve
  is the default, and the output state has \<open>cm_has_degamma\<close>, the surface's input
  transfer function is what \<open>set_input_tf\<close> leaves when it is given the output's degamma
  LUT and starts from distributed points. When \<open>cm_is_degamma_srgb\<close> is set the curve is
  BT.709 for the two formats that the \<^verbatim>\<open>switch\<close> names,
  \<^verbatim>\<open>SURFACE_PIXEL_FORMAT_VIDEO_420_YCbCr\<close> and \<^verbatim>\<open>SURFACE_PIXEL_FORMAT_VIDEO_420_YCrCb\<close>,
  and sRGB for every other format, the 10-bit 4:2:0 formats included; otherwise it is
  linear.
\<close>

theorem update_plane_reuses_crtc_degamma:
  assumes lut: "plane_degamma_lut ps = None \<or>
                (\<exists>l. plane_degamma_lut ps = Some l \<and>
                     is_lut_linear l (of_nat (length l)) = Some True)"
    and tfd: "plane_degamma_tf ps = DRM_TRANSFER_FUNCTION_DEFAULT"
    and has: "cm_has_degamma crtc"
  shows "amdgpu_dm_update_plane_color_mgmt ext crtc ps dc_plane =
         map_option
           (\<lambda>(r, func). (r, dc_plane\<lparr>hdr_mult := dc_fixpt_from_s3132 (plane_hdr_mult ps),
                                    in_transfer_func := func\<rparr>))
           (set_input_tf ext
              ((in_transfer_func dc_plane)
                 \<lparr>tf_type := TF_TYPE_DISTRIBUTED_POINTS,
                  tf := (if cm_is_degamma_srgb crtc
                         then (if format dc_plane = SURFACE_PIXEL_FORMAT_VIDEO_420_YCbCr \<or>
                                  format dc_plane = SURFACE_PIXEL_FORMAT_VIDEO_420_YCrCb
                               then TRANSFER_FUNCTION_BT709 else TRANSFER_FUNCTION_SRGB)
                         else TRANSFER_FUNCTION_LINEAR)\<rparr>)
              (degamma_lut (base crtc))
              (snd (extract_blob_lut (degamma_lut (base crtc)))))"
proof -
  have nl: "lut_is_nonlinear (plane_degamma_lut ps)
              (snd (extract_blob_lut (plane_degamma_lut ps))) = Some False"
    using lut by (auto simp: lut_is_nonlinear_def)
  have f: "implicit_degamma_tf (format dc_plane) =
           (if format dc_plane = SURFACE_PIXEL_FORMAT_VIDEO_420_YCbCr \<or>
               format dc_plane = SURFACE_PIXEL_FORMAT_VIDEO_420_YCrCb
            then TRANSFER_FUNCTION_BT709 else TRANSFER_FUNCTION_SRGB)"
    by (cases "format dc_plane") simp_all
  show ?thesis
    unfolding amdgpu_dm_update_plane_color_mgmt_def
    by (simp add: Let_def split_beta fst_extract_blob_lut nl tfd has f map_option_case
        split: option.splits)
qed

theorem update_plane_reuses_crtc_degamma_witness:
  "\<exists>plane'.
     amdgpu_dm_update_plane_color_mgmt sample_ext
       (sample_crtc\<lparr>base := (base sample_crtc)
          \<lparr>degamma_lut := Some (replicate 4096 \<lparr>red = 1, green = 0, blue = 0, reserved = 0\<rparr>)\<rparr>,
          cm_has_degamma := True, cm_is_degamma_srgb := True\<rparr>)
       \<lparr>plane_degamma_lut = None, plane_degamma_tf = DRM_TRANSFER_FUNCTION_DEFAULT,
        plane_hdr_mult = 0\<rparr>
       \<lparr>format = SURFACE_PIXEL_FORMAT_VIDEO_420_YCbCr, in_transfer_func = sample_func,
        hdr_mult = 0\<rparr> = Some (OK, plane') \<and>
     tf_type (in_transfer_func plane') = TF_TYPE_DISTRIBUTED_POINTS \<and>
     tf (in_transfer_func plane') = TRANSFER_FUNCTION_BT709"
proof -
  let ?ps = "\<lparr>plane_degamma_lut = None, plane_degamma_tf = DRM_TRANSFER_FUNCTION_DEFAULT,
      plane_hdr_mult = 0\<rparr>"
  let ?crtc = "sample_crtc\<lparr>base := (base sample_crtc)
          \<lparr>degamma_lut := Some (replicate 4096 \<lparr>red = 1, green = 0, blue = 0, reserved = 0\<rparr>)\<rparr>,
          cm_has_degamma := True, cm_is_degamma_srgb := True\<rparr>"
  have lut: "plane_degamma_lut ?ps = None \<or>
                (\<exists>l. plane_degamma_lut ?ps = Some l \<and>
                     is_lut_linear l (of_nat (length l)) = Some True)" by simp
  have tfd: "plane_degamma_tf ?ps = DRM_TRANSFER_FUNCTION_DEFAULT" by simp
  have has: "cm_has_degamma ?crtc" by simp
  from update_plane_reuses_crtc_degamma [OF lut tfd has, of sample_ext
      "\<lparr>format = SURFACE_PIXEL_FORMAT_VIDEO_420_YCbCr, in_transfer_func = sample_func,
      hdr_mult = 0\<rparr>"]
  show ?thesis
    by (simp add: set_input_tf_def run_defs dc_fixpt_from_s3132_def)
qed

text \<open>
  C9 as stated fails: \<^verbatim>\<open>SURFACE_PIXEL_FORMAT_VIDEO_420_10bpc_YCbCr\<close> is a 4:2:0
  chroma-subsampled format, for which the spec's wording gives BT.709, and the surface
  comes out with sRGB.
\<close>

theorem update_plane_420_10bpc_counterexample:
  "is_420_chroma_subsampled SURFACE_PIXEL_FORMAT_VIDEO_420_10bpc_YCbCr \<and>
   spec_implicit_degamma_tf SURFACE_PIXEL_FORMAT_VIDEO_420_10bpc_YCbCr =
     TRANSFER_FUNCTION_BT709 \<and>
   map_option (tf \<circ> in_transfer_func \<circ> snd)
     (amdgpu_dm_update_plane_color_mgmt sample_ext
        (sample_crtc\<lparr>base := (base sample_crtc)\<lparr>degamma_lut := Some (red_lut 4096)\<rparr>,
           cm_has_degamma := True, cm_is_degamma_srgb := True\<rparr>)
        \<lparr>plane_degamma_lut = None, plane_degamma_tf = DRM_TRANSFER_FUNCTION_DEFAULT,
         plane_hdr_mult = 0\<rparr>
        \<lparr>format = SURFACE_PIXEL_FORMAT_VIDEO_420_10bpc_YCbCr, in_transfer_func = sample_func,
         hdr_mult = 0\<rparr>) = Some TRANSFER_FUNCTION_SRGB"
  by (simp add: spec_implicit_degamma_tf_def amdgpu_dm_update_plane_color_mgmt_def
      set_input_tf_def run_defs dc_fixpt_from_s3132_def red_lut_def)

end
